theory Spec2Isabelle
  imports Main "HOL-Library.Sublist" "HOL-Library.Word"
begin

text \<open>
  A model of the translation and resiliency layer of the Gemini MCP server: the response
  normalizer and the two retry loops of the provider client (\<open>providers/gemini.ts\<close>),
  the embeddings call, the validation of a base64 upload source (\<open>schemas.ts\<close>), the
  media fetcher (\<open>utils/media.ts\<close>) and the content mapper (\<open>index.ts\<close>). Each
  function of the source is a function here with the same name; a \<open>throw\<close> is a
  result \<^term>\<open>Inl e\<close>; what the network, the platform's parsers and its regular
  expression engine do is a parameter. The properties follow the definitions.
\<close>

section \<open>Strings and untyped values of the platform\<close>

text \<open>
  A JavaScript string is modelled as a \<^typ>\<open>string\<close>, one \<^typ>\<open>char\<close> per code unit
  (code units below 256 only). \<open>s.includes(t)\<close> is \<^term>\<open>sublist t s\<close>,
  \<open>s.startsWith(t)\<close> is \<^term>\<open>prefix t s\<close> and \<open>s.endsWith(t)\<close> is
  \<^term>\<open>suffix t s\<close>.
\<close>

text \<open>\<open>xs.join(sep)\<close> on an array of strings.\<close>

fun join :: "string \<Rightarrow> string list \<Rightarrow> string" where
  "join sep [] = []"
| "join sep [x] = x"
| "join sep (x # y # ys) = x @ sep @ join sep (y # ys)"

text \<open>Decimal rendering of a number, as a template literal renders an integer.\<close>

function show_nat :: "nat \<Rightarrow> string" where
  "show_nat n =
     (if n < 10 then [''0123456789'' ! n]
      else show_nat (n div 10) @ [''0123456789'' ! (n mod 10)])"
  by pat_completeness auto
termination
  by (relation "measure (\<lambda>n. n)") auto

declare show_nat.simps [simp del]

definition show_int :: "int \<Rightarrow> string" where
  "show_int i = (if i < 0 then CHR ''-'' # show_nat (nat (- i)) else show_nat (nat i))"

text \<open>
  A value of TypeScript type \<open>any\<close> that came out of \<open>JSON.parse\<close>. The code
  below only tests a number for zero and renders it, so a number is carried in one of two
  forms: \<open>JNum n\<close> is an integer from \<open>-2^53\<close> to \<open>2^53 - 1\<close>, a signed 54-bit
  value, which a double holds exactly and \<open>String\<close> renders in decimal (\<open>-0\<close> is
  \<open>JNum 0\<close>); \<open>JNumber t\<close> is any other number (a fraction, or an integer outside that
  range), given by the text \<open>t\<close> that \<open>String\<close> renders it as. An object is the list of
  its properties, each name once (\<open>JSON.parse\<close> keeps one value per name). A missing
  property (\<open>undefined\<close>) is \<^term>\<open>None\<close> of \<^typ>\<open>'a option\<close>.
\<close>

datatype json =
    JNull
  | JBool bool
  | JNum "54 word"
  | JNumber string
  | JStr string
  | JArr "json list"
  | JObj "(string \<times> json) list"

text \<open>Truthiness, as \<open>Boolean(v)\<close>, \<open>!v\<close>, \<open>v || d\<close> and \<open>c ? a : b\<close> read it.\<close>

fun truthy :: "json \<Rightarrow> bool" where
  "truthy JNull = False"
| "truthy (JBool b) = b"
| "truthy (JNum n) = (n \<noteq> 0)"
| "truthy (JNumber t) = True"
| "truthy (JStr s) = (s \<noteq> [])"
| "truthy (JArr _) = True"
| "truthy (JObj _) = True"

fun truthy_opt :: "json option \<Rightarrow> bool" where
  "truthy_opt None = False"
| "truthy_opt (Some v) = truthy v"

text \<open>
  A thrown error, by its class and message: a \<open>TypeError\<close>, a plain \<open>Error\<close>, or an
  error of another class (\<open>RangeError\<close>, \<open>FetchError\<close>, ...), given by its name and
  message.
\<close>

datatype js_error = TypeError string | Error string | NamedError string string

fun js_error_name :: "js_error \<Rightarrow> string" where
  "js_error_name (TypeError m) = ''TypeError''"
| "js_error_name (Error m) = ''Error''"
| "js_error_name (NamedError n m) = n"

fun js_error_message :: "js_error \<Rightarrow> string" where
  "js_error_message (TypeError m) = m"
| "js_error_message (Error m) = m"
| "js_error_message (NamedError n m) = m"

text \<open>
  \<open>v.name\<close> for one of the names that the code reads from such values
  (\<open>candidates\<close>, \<open>promptFeedback\<close>, \<open>usageMetadata\<close>, \<open>finishReason\<close>,
  \<open>safetyRatings\<close>, \<open>content\<close>, \<open>parts\<close>, \<open>text\<close>, \<open>functionCall\<close>, the three
  token counters, \<open>blocked\<close>, \<open>category\<close>, \<open>probability\<close>, \<open>embeddings\<close>): reading a
  property of \<open>null\<close> throws a TypeError, a primitive and an array have no property of
  these names, an object is looked up. \<open>get_prop_opt\<close> is the same read of a value that
  may be \<open>undefined\<close>, which throws as well.
\<close>

fun get_prop :: "json \<Rightarrow> string \<Rightarrow> js_error + json option" where
  "get_prop JNull name =
     Inl (TypeError (''Cannot read properties of null (reading '' @ [CHR 0x27] @ name @
                     [CHR 0x27] @ '')''))"
| "get_prop (JObj kvs) name = Inr (map_of kvs name)"
| "get_prop _ name = Inr None"

definition get_prop_opt :: "json option \<Rightarrow> string \<Rightarrow> js_error + json option" where
  "get_prop_opt v name =
     (case v of
        None \<Rightarrow> Inl (TypeError (''Cannot read properties of undefined (reading '' @
                               [CHR 0x27] @ name @ [CHR 0x27] @ '')''))
      | Some x \<Rightarrow> get_prop x name)"

text \<open>
  \<open>v?.name\<close> on a value that may be missing: \<open>undefined\<close> for \<open>undefined\<close> and
  \<open>null\<close>, the property otherwise.
\<close>

fun opt_chain :: "json option \<Rightarrow> string \<Rightarrow> json option" where
  "opt_chain None name = None"
| "opt_chain (Some (JObj kvs)) name = map_of kvs name"
| "opt_chain (Some _) name = None"

text \<open>
  \<open>String(v)\<close>, the conversion a template literal applies to \<open>${v}\<close>. An object is
  rendered by its \<open>toString\<close>: the inherited one gives \<open>[object Object]\<close>; an own
  property of that name, which is never callable in a parsed value, leaves no way to a
  primitive and the conversion throws a TypeError. An array is rendered by joining the
  renderings of its elements, \<open>null\<close> as the empty string, and throws where an element
  does.
\<close>

fun to_string :: "json \<Rightarrow> js_error + string"
  and to_strings :: "json list \<Rightarrow> js_error + string list" where
  "to_string JNull = Inr ''null''"
| "to_string (JBool b) = Inr (if b then ''true'' else ''false'')"
| "to_string (JNum n) = Inr (show_int (sint n))"
| "to_string (JNumber t) = Inr t"
| "to_string (JStr s) = Inr s"
| "to_string (JArr xs) =
     (case to_strings xs of Inl e \<Rightarrow> Inl e | Inr ss \<Rightarrow> Inr (join '','' ss))"
| "to_string (JObj kvs) =
     (if map_of kvs ''toString'' \<noteq> None
      then Inl (TypeError ''Cannot convert object to primitive value'')
      else Inr ''[object Object]'')"
| "to_strings [] = Inr []"
| "to_strings (x # xs) =
     (case (if x = JNull then Inr [] else to_string x) of
        Inl e \<Rightarrow> Inl e
      | Inr s \<Rightarrow> (case to_strings xs of Inl e \<Rightarrow> Inl e | Inr ss \<Rightarrow> Inr (s # ss)))"

fun to_string_opt :: "json option \<Rightarrow> js_error + string" where
  "to_string_opt None = Inr ''undefined''"
| "to_string_opt (Some v) = to_string v"

section \<open>Response normalizer (providers/gemini.ts)\<close>

text \<open>The type \<open>GeminiResponse\<close>: every field is optional.\<close>

record response_part =
  part_text :: "string option"
  part_functionCall :: "json option"

record response_content =
  content_parts :: "response_part list option"
  content_role :: "string option"

record candidate =
  cand_content :: "response_content option"
  cand_finishReason :: "string option"
  cand_index :: "int option"
  cand_safetyRatings :: "json list option"

record promptFeedback =
  pf_safetyRatings :: "json list option"

record usageMetadata =
  promptTokenCount :: "int option"
  candidatesTokenCount :: "int option"
  totalTokenCount :: "int option"

record GeminiResponse =
  candidates :: "candidate list option"
  promptFeedback :: "promptFeedback option"
  usageMetadata :: "usageMetadata option"

text \<open>\<open>xs || []\<close> on an optional array (an array is always truthy).\<close>

definition or_empty :: "'a list option \<Rightarrow> 'a list" where
  "or_empty xs = (case xs of None \<Rightarrow> [] | Some ys \<Rightarrow> ys)"

text \<open>\<open>isBlocked\<close> on a value of that type.\<close>

definition isBlocked :: "GeminiResponse \<Rightarrow> bool" where
  "isBlocked response =
     (let cs = or_empty (candidates response) in
      if length cs = 0 then True
      else (let candidate = cs ! 0 in
            cand_finishReason candidate = Some ''SAFETY'' \<or>
            cand_finishReason candidate = Some ''BLOCKED_REASON_UNSPECIFIED''))"

subsection \<open>The normalizer on any parsed value\<close>

text \<open>
  The types are erased when the code runs, and a response is whatever value
  \<open>response.json()\<close> parsed. The five functions follow as they run on such a value, with
  every property read and method call written out and the TypeError it throws when it
  cannot be performed. \<open>isBlocked\<close> above is \<open>isBlocked_untyped\<close> on the values of the
  declared type.
\<close>

text \<open>\<open>v || []\<close>\<close>

definition or_array :: "json option \<Rightarrow> json" where
  "or_array v = (case v of None \<Rightarrow> JArr [] | Some x \<Rightarrow> if truthy x then x else JArr [])"

text \<open>
  \<open>v.length === 0\<close>: the length of an array or a string, the property of that name of
  an object; a number and a boolean have none.
\<close>

fun length_is_zero :: "json \<Rightarrow> js_error + bool" where
  "length_is_zero JNull = Inl (TypeError ''Cannot read properties of null (reading 'length')'')"
| "length_is_zero (JArr xs) = Inr (xs = [])"
| "length_is_zero (JStr s) = Inr (s = [])"
| "length_is_zero (JObj kvs) = Inr (map_of kvs ''length'' = Some (JNum 0))"
| "length_is_zero _ = Inr False"

text \<open>
  \<open>v[0]\<close>: the first element of an array, the first character of a string, the
  property \<open>0\<close> of an object; \<open>undefined\<close> where there is none.
\<close>

fun index0 :: "json \<Rightarrow> js_error + json option" where
  "index0 JNull = Inl (TypeError ''Cannot read properties of null (reading '0')'')"
| "index0 (JArr xs) = Inr (case xs of [] \<Rightarrow> None | x # _ \<Rightarrow> Some x)"
| "index0 (JStr s) = Inr (case s of [] \<Rightarrow> None | c # _ \<Rightarrow> Some (JStr [c]))"
| "index0 (JObj kvs) = Inr (map_of kvs ''0'')"
| "index0 _ = Inr None"

text \<open>\<open>response.candidates || []\<close>\<close>

definition candidates_or_empty :: "json \<Rightarrow> js_error + json" where
  "candidates_or_empty response =
     (case get_prop response ''candidates'' of
        Inl e \<Rightarrow> Inl e
      | Inr c \<Rightarrow> Inr (or_array c))"

definition isBlocked_untyped :: "json \<Rightarrow> js_error + bool" where
  "isBlocked_untyped response =
     (case candidates_or_empty response of
        Inl e \<Rightarrow> Inl e
      | Inr cs \<Rightarrow>
          (case length_is_zero cs of
             Inl e \<Rightarrow> Inl e
           | Inr none \<Rightarrow>
               if none then Inr True
               else (case index0 cs of
                       Inl e \<Rightarrow> Inl e
                     | Inr candidate \<Rightarrow>
                         (case get_prop_opt candidate ''finishReason'' of
                            Inl e \<Rightarrow> Inl e
                          | Inr finishReason \<Rightarrow>
                              Inr (finishReason = Some (JStr ''SAFETY'') \<or>
                                   finishReason = Some (JStr ''BLOCKED_REASON_UNSPECIFIED''))))))"














section \<open>Values used to state the properties of the response normalizer\<close>

text \<open>
  A value of the declared type \<open>GeminiResponse\<close>: an object in which every field is
  missing or has the shape that the type gives it (the elements of \<open>safetyRatings\<close> and
  a \<open>functionCall\<close> are of type \<open>any\<close>).
\<close>

fun is_string :: "json \<Rightarrow> bool" where
  "is_string (JStr s) = True"
| "is_string _ = False"

fun is_number :: "json \<Rightarrow> bool" where
  "is_number (JNum n) = True"
| "is_number (JNumber t) = True"
| "is_number _ = False"

definition optional :: "(json \<Rightarrow> bool) \<Rightarrow> json option \<Rightarrow> bool" where
  "optional T v = (case v of None \<Rightarrow> True | Some x \<Rightarrow> T x)"

fun array_of :: "(json \<Rightarrow> bool) \<Rightarrow> json \<Rightarrow> bool" where
  "array_of T (JArr xs) = list_all T xs"
| "array_of T _ = False"

fun object_of :: "((string \<Rightarrow> json option) \<Rightarrow> bool) \<Rightarrow> json \<Rightarrow> bool" where
  "object_of T (JObj kvs) = T (map_of kvs)"
| "object_of T _ = False"

definition any :: "json \<Rightarrow> bool" where
  "any v = True"

definition part_type :: "json \<Rightarrow> bool" where
  "part_type =
     object_of (\<lambda>f. optional is_string (f ''text'') \<and>
                        optional any (f ''functionCall''))"

definition content_type :: "json \<Rightarrow> bool" where
  "content_type =
     object_of (\<lambda>f. optional (array_of part_type) (f ''parts'') \<and>
                        optional is_string (f ''role''))"

definition candidate_type :: "json \<Rightarrow> bool" where
  "candidate_type =
     object_of (\<lambda>f. optional content_type (f ''content'') \<and>
                        optional is_string (f ''finishReason'') \<and>
                        optional is_number (f ''index'') \<and>
                        optional (array_of any) (f ''safetyRatings''))"

definition promptFeedback_type :: "json \<Rightarrow> bool" where
  "promptFeedback_type =
     object_of (\<lambda>f. optional (array_of any) (f ''safetyRatings''))"

definition usageMetadata_type :: "json \<Rightarrow> bool" where
  "usageMetadata_type =
     object_of (\<lambda>f. optional is_number (f ''promptTokenCount'') \<and>
                        optional is_number (f ''candidatesTokenCount'') \<and>
                        optional is_number (f ''totalTokenCount''))"

definition GeminiResponse_type :: "json \<Rightarrow> bool" where
  "GeminiResponse_type =
     object_of (\<lambda>f. optional (array_of candidate_type) (f ''candidates'') \<and>
                        optional promptFeedback_type (f ''promptFeedback'') \<and>
                        optional usageMetadata_type (f ''usageMetadata''))"















text \<open>
  The value of the declared type as \<open>JSON.parse\<close> gives it: a missing field is a
  missing property.
\<close>

definition optional_field :: "string \<Rightarrow> ('a \<Rightarrow> json) \<Rightarrow> 'a option \<Rightarrow> (string \<times> json) list" where
  "optional_field name encode v = (case v of None \<Rightarrow> [] | Some x \<Rightarrow> [(name, encode x)])"

definition json_of_part :: "response_part \<Rightarrow> json" where
  "json_of_part p =
     JObj (optional_field ''text'' JStr (part_text p) @
           optional_field ''functionCall'' (\<lambda>v. v) (part_functionCall p))"

definition json_of_content :: "response_content \<Rightarrow> json" where
  "json_of_content c =
     JObj (optional_field ''parts'' (\<lambda>ps. JArr (map json_of_part ps)) (content_parts c) @
           optional_field ''role'' JStr (content_role c))"

definition json_of_candidate :: "candidate \<Rightarrow> json" where
  "json_of_candidate c =
     JObj (optional_field ''content'' json_of_content (cand_content c) @
           optional_field ''finishReason'' JStr (cand_finishReason c) @
           optional_field ''index'' (\<lambda>i. JNum (word_of_int i)) (cand_index c) @
           optional_field ''safetyRatings'' JArr (cand_safetyRatings c))"

definition json_of_usageMetadata :: "usageMetadata \<Rightarrow> json" where
  "json_of_usageMetadata u =
     JObj (optional_field ''promptTokenCount'' (\<lambda>i. JNum (word_of_int i)) (promptTokenCount u) @
           optional_field ''candidatesTokenCount'' (\<lambda>i. JNum (word_of_int i)) (candidatesTokenCount u) @
           optional_field ''totalTokenCount'' (\<lambda>i. JNum (word_of_int i)) (totalTokenCount u))"

definition json_of_response :: "GeminiResponse \<Rightarrow> json" where
  "json_of_response r =
     JObj (optional_field ''candidates'' (\<lambda>cs. JArr (map json_of_candidate cs)) (candidates r) @
           optional_field ''promptFeedback''
             (\<lambda>pf. JObj (optional_field ''safetyRatings'' JArr (pf_safetyRatings pf)))
             (promptFeedback r) @
           optional_field ''usageMetadata'' json_of_usageMetadata (usageMetadata r))"

section \<open>Provider client: the two retry loops (providers/gemini.ts)\<close>

text \<open>
  What a \<open>throw\<close> can carry here: \<open>undefined\<close> (a \<open>lastError\<close> that was never
  assigned), an \<open>Error\<close> with its message, the \<open>Error\<close> that \<open>fetchWithRetry\<close>
  builds for a non-OK response (message, \<open>.status\<close>, \<open>.body\<close>), or a value that is not
  an \<open>Error\<close> instance.
\<close>

datatype thrown =
    Undefined
  | Err string
  | ApiError string nat "json option"
  | NotAnError json

fun instanceof_Error :: "thrown \<Rightarrow> bool" where
  "instanceof_Error (Err _) = True"
| "instanceof_Error (ApiError _ _ _) = True"
| "instanceof_Error _ = False"

fun message :: "thrown \<Rightarrow> string" where
  "message (Err m) = m"
| "message (ApiError m _ _) = m"
| "message _ = []"

record 'a run =
  outcome :: "thrown + 'a"
  sleeps :: "nat list"
  calls :: nat

subsection \<open>retryWithBackoff and generateContent\<close>

text \<open>
  \<open>operation k\<close> is what the \<open>k\<close>-th call of the operation does (the loop calls it
  once per value of \<open>attempt\<close>): \<^term>\<open>Inl e\<close> when it throws \<open>e\<close>. The loop state is
  \<open>attempt\<close>, \<open>lastError\<close> and the delays slept so far, in milliseconds.
\<close>

function retryWithBackoff_loop ::
  "(nat \<Rightarrow> thrown + 'a) \<Rightarrow> nat \<Rightarrow> nat \<Rightarrow> thrown \<Rightarrow> nat list \<Rightarrow> 'a run" where
  "retryWithBackoff_loop operation maxRetries attempt lastError slept =
     (if attempt \<le> maxRetries then
        (case operation attempt of
           Inr v \<Rightarrow> \<lparr> outcome = Inr v, sleeps = slept, calls = attempt + 1 \<rparr>
         | Inl error \<Rightarrow>
             if instanceof_Error error \<and> sublist ''400'' (message error)
             then \<lparr> outcome = Inl error, sleeps = slept, calls = attempt + 1 \<rparr>
             else if attempt = maxRetries
             then \<lparr> outcome = Inl error, sleeps = slept, calls = attempt + 1 \<rparr>
             else if \<not> (instanceof_Error error \<and>
                          (sublist ''429'' (message error) \<or> sublist ''5'' (message error)))
             then \<lparr> outcome = Inl error, sleeps = slept, calls = attempt + 1 \<rparr>
             else retryWithBackoff_loop operation maxRetries (attempt + 1) error
                    (slept @ [2 ^ attempt * 1000]))
      else \<lparr> outcome = Inl lastError, sleeps = slept, calls = attempt \<rparr>)"
  by pat_completeness auto
termination
  by (relation "measure (\<lambda>(operation, maxRetries, attempt, lastError, slept).
        Suc maxRetries - attempt)") auto

declare retryWithBackoff_loop.simps [simp del]

definition retryWithBackoff :: "(nat \<Rightarrow> thrown + 'a) \<Rightarrow> nat \<Rightarrow> 'a run" where
  "retryWithBackoff operation maxRetries =
     retryWithBackoff_loop operation maxRetries 0 Undefined []"

text \<open>
  One HTTP exchange as the client sees it: \<open>fetch\<close> rejects, or a response arrives
  with its status, status text and body text. The platform's JSON parser (\<open>JSON.parse\<close>,
  \<open>response.json()\<close>) is a parameter \<open>JSON_parse\<close> of the functions below:
  \<^term>\<open>Inl e\<close> when it throws \<open>e\<close> on a text.
\<close>

datatype fetch_result =
    FetchRejects thrown
  | HttpResponse nat string string

text \<open>\<open>res.ok\<close>: the status is in the range 200-299.\<close>

definition ok :: "nat \<Rightarrow> bool" where
  "ok status = (200 \<le> status \<and> status \<le> 299)"

text \<open>
  The operation of \<open>generateContent\<close>: a non-OK response is thrown as
  \<open>new Error(`${response.status} ${response.statusText} - ${errorText}`)\<close>, where
  \<open>errorText\<close> is the body text; the body of an OK response is parsed by
  \<open>response.json()\<close>, and the log line that follows reads \<open>data.candidates\<close>, which
  throws a TypeError when the parsed body is \<open>null\<close>.
\<close>

definition generate_attempt ::
  "(string \<Rightarrow> thrown + json) \<Rightarrow> fetch_result \<Rightarrow> thrown + json" where
  "generate_attempt JSON_parse r =
     (case r of
        FetchRejects e \<Rightarrow> Inl e
      | HttpResponse status statusText text \<Rightarrow>
          if \<not> ok status
          then Inl (Err (show_nat status @ '' '' @ statusText @ '' - '' @ text))
          else (case JSON_parse text of
                  Inl e \<Rightarrow> Inl e
                | Inr data \<Rightarrow>
                    (case get_prop data ''candidates'' of
                       Inl e \<Rightarrow> Inl (Err (js_error_message e))
                     | Inr c \<Rightarrow> Inr data)))"

definition generateContent ::
  "(string \<Rightarrow> thrown + json) \<Rightarrow> (nat \<Rightarrow> fetch_result) \<Rightarrow> json run" where
  "generateContent JSON_parse net =
     retryWithBackoff (\<lambda>k. generate_attempt JSON_parse (net k)) 3"

text \<open>
  The failures after which the loop sleeps and calls the operation again, when an attempt
  is left: an \<open>Error\<close> whose message does not contain \<open>400\<close> and contains
  \<open>429\<close> or the character \<open>5\<close>.
\<close>

definition retryable :: "thrown \<Rightarrow> bool" where
  "retryable e =
     (instanceof_Error e \<and> \<not> sublist ''400'' (message e) \<and>
      (sublist ''429'' (message e) \<or> sublist ''5'' (message e)))"

definition retryable_failure :: "thrown + 'a \<Rightarrow> bool" where
  "retryable_failure r = (case r of Inl e \<Rightarrow> retryable e | Inr _ \<Rightarrow> False)"

subsection \<open>fetchWithRetry\<close>

definition maxRetries :: nat where
  "maxRetries = 3"

definition initialBackoffMs :: nat where
  "initialBackoffMs = 500"

text \<open>\<open>errorBody = await res.json()\<close>, \<open>undefined\<close> when that throws.\<close>

definition errorBody_of :: "(string \<Rightarrow> thrown + json) \<Rightarrow> string \<Rightarrow> json option" where
  "errorBody_of JSON_parse text =
     (case JSON_parse text of Inl e \<Rightarrow> None | Inr v \<Rightarrow> Some v)"

text \<open>
  What is thrown for a non-OK response that is not retried: the error built from the
  upstream code, status and message, or the TypeError of the template literal when one of
  the three cannot be converted to a string.
\<close>

definition api_error :: "nat \<Rightarrow> string \<Rightarrow> json option \<Rightarrow> thrown" where
  "api_error status statusText errorBody =
     (let err = opt_chain errorBody ''error'';
          m = opt_chain err ''message'';
          c = opt_chain err ''code'';
          s = opt_chain err ''status''
      in case (if truthy_opt c then to_string_opt c else Inr (show_nat status)) of
           Inl e \<Rightarrow> Err (js_error_message e)
         | Inr code \<Rightarrow>
             (case (if truthy_opt s then to_string_opt s else Inr []) of
                Inl e \<Rightarrow> Err (js_error_message e)
              | Inr st \<Rightarrow>
                  (case (if truthy_opt m then to_string_opt m
                         else Inr (if statusText \<noteq> [] then statusText
                                   else ''Unknown error'')) of
                     Inl e \<Rightarrow> Err (js_error_message e)
                   | Inr msg \<Rightarrow>
                       ApiError (''Gemini API error '' @ code @
                                 (if truthy_opt s then '' ('' @ st @ '')'' else []) @
                                 '': '' @ msg)
                         status errorBody)))"

text \<open>
  The body of the \<open>try\<close> block for one response, up to the point where it returns,
  continues after the status backoff, or throws into the \<open>catch\<close> of the same block.
\<close>

datatype try_result = Returns "json option" | RetryStatus | Raises thrown

definition try_block ::
  "(string \<Rightarrow> thrown + json) \<Rightarrow> bool \<Rightarrow> fetch_result \<Rightarrow> try_result" where
  "try_block JSON_parse parseJson r =
     (case r of
        FetchRejects e \<Rightarrow> Raises e
      | HttpResponse status statusText text \<Rightarrow>
          if ok status then
            (if \<not> parseJson then Returns None
             else if text = [] then Returns (Some (JObj []))
             else (case JSON_parse text of
                     Inl e \<Rightarrow> Raises e
                   | Inr v \<Rightarrow> Returns (Some v)))
          else if status = 429 \<or> (status \<ge> 500 \<and> status < 600) then RetryStatus
          else Raises (api_error status statusText (errorBody_of JSON_parse text)))"

text \<open>
  The loop of \<open>fetchWithRetry\<close>. \<open>net k\<close> is the exchange of the \<open>k\<close>-th call of
  \<open>fetch\<close> (the loop calls it once per value of \<open>attempt\<close>); the state is \<open>attempt\<close>,
  \<open>lastError\<close> and the delays slept so far, in milliseconds.
\<close>

function fetchWithRetry_loop ::
  "(string \<Rightarrow> thrown + json) \<Rightarrow> (nat \<Rightarrow> fetch_result) \<Rightarrow> bool \<Rightarrow> nat \<Rightarrow> thrown \<Rightarrow> nat list
   \<Rightarrow> (json option) run" where
  "fetchWithRetry_loop JSON_parse net parseJson attempt lastError slept =
     (if attempt \<le> maxRetries then
        (case try_block JSON_parse parseJson (net attempt) of
           Returns v \<Rightarrow> \<lparr> outcome = Inr v, sleeps = slept, calls = attempt + 1 \<rparr>
         | RetryStatus \<Rightarrow>
             fetchWithRetry_loop JSON_parse net parseJson (attempt + 1) lastError
               (slept @ [initialBackoffMs * 2 ^ attempt])
         | Raises err \<Rightarrow>
             if attempt < maxRetries
             then fetchWithRetry_loop JSON_parse net parseJson (attempt + 1) err
                    (slept @ [initialBackoffMs * 2 ^ attempt])
             else \<lparr> outcome = Inl err, sleeps = slept, calls = attempt + 1 \<rparr>)
      else \<lparr> outcome = Inl lastError, sleeps = slept, calls = attempt \<rparr>)"
  by pat_completeness auto
termination
  by (relation "measure (\<lambda>(JSON_parse, net, parseJson, attempt, lastError, slept).
        Suc maxRetries - attempt)") auto

declare fetchWithRetry_loop.simps [simp del]

definition fetchWithRetry ::
  "(string \<Rightarrow> thrown + json) \<Rightarrow> (nat \<Rightarrow> fetch_result) \<Rightarrow> bool \<Rightarrow> (json option) run" where
  "fetchWithRetry JSON_parse net parseJson =
     fetchWithRetry_loop JSON_parse net parseJson 0 Undefined []"

section \<open>Upload source validation (schemas.ts)\<close>

text \<open>The character class \<open>[A-Za-z0-9+/]\<close>.\<close>

definition base64_class :: "char \<Rightarrow> bool" where
  "base64_class c =
     (c \<in> set ''ABCDEFGHIJKLMNOPQRSTUVWXYZabcdefghijklmnopqrstuvwxyz0123456789+/'')"

text \<open>
  \<open>base64Regex\<close>, \<open>/^(?:[A-Za-z0-9+/]{4})*(?:[A-Za-z0-9+/]{2}==|[A-Za-z0-9+/]{3}=)?$/\<close>:
  groups of four characters of the class, then at most one padded group, up to the end
  of the string.
\<close>

fun base64Regex :: "string \<Rightarrow> bool" where
  "base64Regex [] = True"
| "base64Regex (a # b # c # d # rest) =
     (if base64_class a \<and> base64_class b \<and> base64_class c \<and> base64_class d
      then base64Regex rest
      else rest = [] \<and> base64_class a \<and> base64_class b \<and> d = CHR ''='' \<and>
           (c = CHR ''='' \<or> base64_class c))"
| "base64Regex _ = False"

text \<open>
  The regular expression is run by a backtracking engine: the starred group is greedy, so
  the engine first takes every leading group of four characters of the class, and it
  keeps one entry on its backtrack stack for each. \<open>base64_groups\<close> is the number of
  these groups. When the stack is full the engine throws a RangeError; \<open>limit\<close> is the
  number of iterations of the group that the stack of the engine holds, a parameter of
  the functions below.
\<close>

fun base64_groups :: "string \<Rightarrow> nat" where
  "base64_groups (a # b # c # d # rest) =
     (if base64_class a \<and> base64_class b \<and> base64_class c \<and> base64_class d
      then Suc (base64_groups rest) else 0)"
| "base64_groups _ = 0"

definition base64Regex_test :: "nat \<Rightarrow> string \<Rightarrow> js_error + bool" where
  "base64Regex_test limit s =
     (if base64_groups s > limit
      then Inl (NamedError ''RangeError'' ''Maximum call stack size exceeded'')
      else Inr (base64Regex s))"

definition MAX_UPLOAD_BYTES :: int where
  "MAX_UPLOAD_BYTES = 50 * 1024 * 1024"

definition approximateBase64DecodedBytes :: "string \<Rightarrow> int" where
  "approximateBase64DecodedBytes b64 =
     (let len = int (length b64);
          padding = (if suffix ''=='' b64 then 2 else if suffix ''='' b64 then 1 else 0)
      in (len * 3) div 4 - padding)"

text \<open>
  \<open>SourceBase64Schema\<close> on the \<open>base64\<close> field: the issues the string
  checks (\<open>regex\<close>, \<open>min(4)\<close>) and the \<open>superRefine\<close> raise; the value is
  accepted when there is none. The test of the regular expression comes first and
  nothing catches what it throws.
\<close>

definition SourceBase64Schema :: "nat \<Rightarrow> string \<Rightarrow> js_error + string list" where
  "SourceBase64Schema limit base64 =
     (case base64Regex_test limit base64 of
        Inl e \<Rightarrow> Inl e
      | Inr matches \<Rightarrow>
          Inr ((if matches then [] else [''Invalid base64 content.'']) @
               (if length base64 \<ge> 4 then []
                else [''String must contain at least 4 character(s)'']) @
               (let bytes = approximateBase64DecodedBytes base64 in
                  (if bytes \<le> 0 then [''Base64 payload is empty.''] else []) @
                  (if bytes > MAX_UPLOAD_BYTES
                   then [''Base64 payload exceeds 50 MiB (decoded).''] else []))))"

text \<open>
  Standard base64 with padding, as \<open>Buffer.toString("base64")\<close> writes it: the
  payload whose decoded bytes are \<open>bytes\<close>.
\<close>

definition base64_digit :: "nat \<Rightarrow> char" where
  "base64_digit n =
     ''ABCDEFGHIJKLMNOPQRSTUVWXYZabcdefghijklmnopqrstuvwxyz0123456789+/'' ! (n mod 64)"

fun base64_encode :: "8 word list \<Rightarrow> string" where
  "base64_encode [] = []"
| "base64_encode [a] =
     [base64_digit (unat a div 4), base64_digit (unat a mod 4 * 16), CHR ''='', CHR ''='']"
| "base64_encode [a, b] =
     [base64_digit (unat a div 4), base64_digit (unat a mod 4 * 16 + unat b div 16),
      base64_digit (unat b mod 16 * 4), CHR ''='']"
| "base64_encode (a # b # c # rest) =
     [base64_digit (unat a div 4), base64_digit (unat a mod 4 * 16 + unat b div 16),
      base64_digit (unat b mod 16 * 4 + unat c div 64), base64_digit (unat c mod 64)]
     @ base64_encode rest"

section \<open>Media fetcher (utils/media.ts)\<close>

text \<open>
  The two components of a parsed \<open>URL\<close> that the code reads. The platform's URL parser
  is a parameter \<open>new_URL\<close> of the functions below: \<^term>\<open>None\<close> when the constructor
  throws.
\<close>

record URL =
  protocol :: string
  hostname :: string

text \<open>\<open>s.toLowerCase()\<close> on the letters A-Z.\<close>

definition toLowerCase :: "string \<Rightarrow> string" where
  "toLowerCase s =
     map (\<lambda>c. case map_of (zip ''ABCDEFGHIJKLMNOPQRSTUVWXYZ'' ''abcdefghijklmnopqrstuvwxyz'') c of
              None \<Rightarrow> c | Some l \<Rightarrow> l) s"

definition digit_in :: "string \<Rightarrow> char \<Rightarrow> bool" where
  "digit_in cs c = (c \<in> set cs)"

text \<open>\<open>/^172\.(1[6-9]|2[0-9]|3[01])\./\<close>\<close>

fun net172 :: "string \<Rightarrow> bool" where
  "net172 (c1 # c2 # c3 # c4 # a # b # c7 # _) =
     ([c1, c2, c3, c4] = ''172.'' \<and> c7 = CHR ''.'' \<and>
      ((a = CHR ''1'' \<and> digit_in ''6789'' b) \<or>
       (a = CHR ''2'' \<and> digit_in ''0123456789'' b) \<or>
       (a = CHR ''3'' \<and> digit_in ''01'' b)))"
| "net172 _ = False"

definition DISALLOWED_NETWORKS :: "(string \<Rightarrow> bool) list" where
  "DISALLOWED_NETWORKS =
     [prefix ''127.'', prefix ''10.'', prefix ''192.168.'', net172, prefix ''169.254.'',
      (\<lambda>h. h = ''::1''), prefix ''fc00::'', prefix ''fe80::'']"

definition DISALLOWED_HOSTNAMES :: "string list" where
  "DISALLOWED_HOSTNAMES =
     [''localhost'', ''0.0.0.0'', ''metadata.google.internal'', ''169.254.169.254'']"

definition validateUrl :: "(string \<Rightarrow> URL option) \<Rightarrow> string \<Rightarrow> js_error + unit" where
  "validateUrl new_URL urlString =
     (case new_URL urlString of
        None \<Rightarrow> Inl (Error (''Invalid URL: '' @ urlString))
      | Some parsedUrl \<Rightarrow>
          if protocol parsedUrl \<notin> set [''http:'', ''https:'']
          then Inl (Error (''Unsupported protocol: '' @ protocol parsedUrl @
                           ''. Only HTTP and HTTPS are allowed.''))
          else (let host = toLowerCase (hostname parsedUrl) in
                if host \<in> set DISALLOWED_HOSTNAMES
                then Inl (Error (''Access to hostname '' @ [CHR 0x27] @ host @ [CHR 0x27] @
                                 '' is not allowed''))
                else if list_ex (\<lambda>pattern. pattern host) DISALLOWED_NETWORKS
                then Inl (Error (''Access to IP range '' @ [CHR 0x27] @ host @ [CHR 0x27] @
                                 '' is not allowed''))
                else Inr ()))"

record InlineDataResult =
  data :: string
  mimeType :: string

text \<open>
  \<open>Buffer.from(s, 'base64')\<close> of the platform: it does not throw on a string that is
  not base64; it decodes the characters of the alphabet (standard or URL-safe) up to the
  first \<open>=\<close> and skips the others. The result here is the list of six-bit values read;
  the caller below discards it.
\<close>

definition Buffer_from_base64 :: "string \<Rightarrow> js_error + nat list" where
  "Buffer_from_base64 s =
     Inr (List.map_filter
            (map_of (zip (''ABCDEFGHIJKLMNOPQRSTUVWXYZabcdefghijklmnopqrstuvwxyz0123456789+/'' @ ''-_'')
                         ([0 ..< 64] @ [62, 63])))
            (takeWhile (\<lambda>c. c \<noteq> CHR ''='') s))"

text \<open>A line terminator, which \<open>.\<close> of a regular expression does not match.\<close>

definition line_terminator :: "char \<Rightarrow> bool" where
  "line_terminator c = (c = CHR 0x0A \<or> c = CHR 0x0D)"

text \<open>
  \<open>dataUrl.match(/^data:([^;,]+)?(;base64)?,(.*)/)\<close>: the three groups, or
  \<^term>\<open>None\<close> when there is no match. The first group is the longest run without
  \<open>;\<close> and \<open>,\<close> (a shorter one leaves a character that neither \<open>;base64\<close> nor
  \<open>,\<close> matches); the last stops at the first line terminator.
\<close>

definition match_data_url :: "string \<Rightarrow> (string option \<times> string option \<times> string) option" where
  "match_data_url dataUrl =
     (if \<not> prefix ''data:'' dataUrl then None
      else (let r = drop 5 dataUrl;
                m = takeWhile (\<lambda>c. c \<noteq> CHR '';'' \<and> c \<noteq> CHR '','') r;
                r1 = dropWhile (\<lambda>c. c \<noteq> CHR '';'' \<and> c \<noteq> CHR '','') r;
                g1 = (if m = [] then None else Some m)
            in if prefix '';base64,'' r1
               then Some (g1, Some '';base64'', takeWhile (\<lambda>c. \<not> line_terminator c) (drop 8 r1))
               else if prefix '','' r1
               then Some (g1, None, takeWhile (\<lambda>c. \<not> line_terminator c) (drop 1 r1))
               else None))"

definition parseDataUrl :: "string \<Rightarrow> js_error + InlineDataResult" where
  "parseDataUrl dataUrl =
     (case match_data_url dataUrl of
        None \<Rightarrow> Inl (Error ''Invalid data URL format'')
      | Some (g1, isBase64, d) \<Rightarrow>
          (let mt = (case g1 of None \<Rightarrow> ''application/octet-stream'' | Some m \<Rightarrow> m) in
           if isBase64 = None
           then Inl (Error ''Only base64-encoded data URLs are supported'')
           else (case Buffer_from_base64 d of
                   Inl e \<Rightarrow> Inl (Error ''Invalid base64 data in data URL'')
                 | Inr buf \<Rightarrow> Inr \<lparr> data = d, mimeType = mt \<rparr>)))"

text \<open>
  \<open>(byteLength / (1024 * 1024)).toFixed(2)\<close>: the quotient is exact in floating point
  (a division by a power of two), and \<open>toFixed(2)\<close> rounds it to hundredths, a tie
  upwards.
\<close>

definition sizeMB_toFixed2 :: "nat \<Rightarrow> string" where
  "sizeMB_toFixed2 byteLength =
     (let n = (200 * byteLength + 1048576) div 2097152 in
      show_nat (n div 100) @ ''.'' @ show_nat (n mod 100 div 10) @ show_nat (n mod 10))"

text \<open>
  What the network does with one request for a media URL: the 30 second timer aborts it,
  \<open>fetch\<close> (or reading the body) rejects, or a response arrives with its status,
  status text, \<open>Content-Type\<close> header, body bytes and the MIME type that
  \<open>fileTypeFromBuffer\<close> finds in them (if any).
\<close>

datatype media_response =
    Aborted
  | Rejected js_error
  | MediaResponse nat string "string option" "8 word list" "string option"

text \<open>\<open>a || b\<close> on optional strings: a missing or empty \<open>a\<close> gives \<open>b\<close>.\<close>

definition or_else :: "string option \<Rightarrow> string option \<Rightarrow> string option" where
  "or_else a b = (case a of None \<Rightarrow> b | Some s \<Rightarrow> if s = [] then b else Some s)"

text \<open>
  \<open>fetchAsInlineData\<close>. A \<open>data:\<close> URL is parsed and returned; any other URL is
  validated and then requested. The \<open>catch\<close> around the body rethrows the error it
  caught, except that an error named \<open>AbortError\<close> becomes a timeout error. Reading a
  body of more than the 25 MB that the request allows rejects with the \<open>FetchError\<close> of
  the fetch library (no redirect is modelled: the URL in its message is the one
  requested).
\<close>

definition fetchAsInlineData ::
  "(string \<Rightarrow> URL option) \<Rightarrow> (string \<Rightarrow> media_response) \<Rightarrow> string \<Rightarrow> string option
   \<Rightarrow> js_error + InlineDataResult" where
  "fetchAsInlineData new_URL net url mimeHint =
     (if prefix ''data:'' url then parseDataUrl url
      else (case validateUrl new_URL url of
              Inl e \<Rightarrow> Inl e
            | Inr _ \<Rightarrow>
                (case net url of
                   Aborted \<Rightarrow> Inl (Error (''Timeout fetching media from '' @ url))
                 | Rejected e \<Rightarrow>
                     if js_error_name e = ''AbortError''
                     then Inl (Error (''Timeout fetching media from '' @ url))
                     else Inl e
                 | MediaResponse status statusText contentType bytes sniffed \<Rightarrow>
                     if \<not> ok status
                     then Inl (Error (''Failed to fetch media: '' @ url @ '' - '' @
                                      show_nat status @ '' '' @ statusText))
                     else if length bytes > 25 * 1024 * 1024
                     then Inl (NamedError ''FetchError''
                                 (''content size at '' @ url @ '' over limit: 26214400''))
                     else if length bytes > 20 * (1024 * 1024)
                     then Inl (Error (''Media file too large: '' @
                                      sizeMB_toFixed2 (length bytes) @
                                      '' MB (limit: 20 MB)''))
                     else Inr \<lparr> data = base64_encode bytes,
                                mimeType =
                                  (case or_else (or_else mimeHint contentType) sniffed of
                                     None \<Rightarrow> ''application/octet-stream''
                                   | Some mt \<Rightarrow> mt) \<rparr>)))"

text \<open>
  A model of the platform's URL parser on URLs of the shape
  \<open>scheme://[user@]host[:port][/path][?query][#fragment]\<close>, giving the protocol and the
  host name in lower case; any other string with a scheme has an empty host name.
\<close>

definition URL_parse :: "string \<Rightarrow> URL option" where
  "URL_parse s =
     (let scheme = takeWhile (\<lambda>c. c \<noteq> CHR '':'') s;
          rest = drop (length scheme + 1) s
      in if scheme = [] \<or> length scheme = length s then None
         else if \<not> prefix ''//'' rest
         then Some \<lparr> protocol = toLowerCase scheme @ '':'', hostname = [] \<rparr>
         else (let authority = takeWhile (\<lambda>c. c \<notin> set ''/?#'') (drop 2 rest);
                   hostport = rev (takeWhile (\<lambda>c. c \<noteq> CHR ''@'') (rev authority));
                   host = takeWhile (\<lambda>c. c \<noteq> CHR '':'') hostport
               in Some \<lparr> protocol = toLowerCase scheme @ '':'', hostname = toLowerCase host \<rparr>))"

section \<open>Content mapper (index.ts)\<close>

text \<open>
  \<open>validateDataSize(base64Data)\<close> with the default limit of 20 MB:
  \<open>(base64Data.length * 3) / 4 / (1024 * 1024) <= 20\<close>. The product is an integer and
  the two divisions are by powers of two, so the floating-point value is the exact
  quotient and the test is the comparison of integers below.
\<close>

definition validateDataSize :: "string \<Rightarrow> bool" where
  "validateDataSize base64Data = (length base64Data * 3 \<le> 20 * (1024 * 1024) * 4)"

text \<open>
  A \<open>ContentPart\<close>, by its \<open>type\<close> tag; \<open>UnknownPart\<close> is a part with any other tag,
  which the \<open>default\<close> branch of the \<open>switch\<close> receives.
\<close>

datatype ContentPart =
    Text string
  | ImageUrl string "string option"
  | AudioUrl string "string option"
  | VideoUrl string "string option"
  | InlineData string string
  | FileUri string "string option"
  | UnknownPart string

datatype message_content = Str string | Parts "ContentPart list"

datatype GeminiPart =
    TextPart string
  | InlineDataPart InlineDataResult
  | FileDataPart string "string option"

text \<open>
  \<open>`${error}`\<close> for a thrown error: its name, a colon and its message; the name
  alone when the message is empty, the message alone when the name is.
\<close>

definition error_to_string :: "js_error \<Rightarrow> string" where
  "error_to_string e =
     (if js_error_name e = [] then js_error_message e
      else if js_error_message e = [] then js_error_name e
      else js_error_name e @ '': '' @ js_error_message e)"

text \<open>
  The \<open>try\<close>/\<open>catch\<close> of the three media cases: the fetched data as an inline part, or,
  when the fetch throws or the fetched data is over the size limit, a text part that
  describes the failure. (The MIME type check of the source only logs a warning.)
\<close>

definition media_part ::
  "(string \<Rightarrow> URL option) \<Rightarrow> (string \<Rightarrow> media_response) \<Rightarrow> string \<Rightarrow> string option
   \<Rightarrow> GeminiPart" where
  "media_part new_URL net url mimeHint =
     (case (case fetchAsInlineData new_URL net url mimeHint of
              Inl e \<Rightarrow> Inl e
            | Inr inlineData \<Rightarrow>
                if \<not> validateDataSize (data inlineData)
                then Inl (Error (''Media file too large: '' @ url))
                else Inr inlineData) of
        Inr inlineData \<Rightarrow> InlineDataPart inlineData
      | Inl error \<Rightarrow>
          TextPart (''[Error loading media from '' @ url @ '': '' @ error_to_string error @ '']''))"

text \<open>
  The loop of \<open>mapContentToGeminiParts\<close> over the parts from position \<open>i\<close> on, with the
  array \<open>parts\<close> built so far. \<open>net i\<close> is the network as the request for the part at
  position \<open>i\<close> finds it.
\<close>

fun mapParts ::
  "(string \<Rightarrow> URL option) \<Rightarrow> (nat \<Rightarrow> string \<Rightarrow> media_response) \<Rightarrow> nat \<Rightarrow> ContentPart list
   \<Rightarrow> GeminiPart list \<Rightarrow> js_error + GeminiPart list" where
  "mapParts new_URL net i [] parts = Inr parts"
| "mapParts new_URL net i (part # rest) parts =
     (case part of
        Text t \<Rightarrow> mapParts new_URL net (i + 1) rest (parts @ [TextPart t])
      | ImageUrl url mt \<Rightarrow>
          mapParts new_URL net (i + 1) rest (parts @ [media_part new_URL (net i) url mt])
      | AudioUrl url mt \<Rightarrow>
          mapParts new_URL net (i + 1) rest (parts @ [media_part new_URL (net i) url mt])
      | VideoUrl url mt \<Rightarrow>
          mapParts new_URL net (i + 1) rest (parts @ [media_part new_URL (net i) url mt])
      | InlineData d mt \<Rightarrow>
          if \<not> validateDataSize d then Inl (Error ''Inline data too large'')
          else mapParts new_URL net (i + 1) rest
                 (parts @ [InlineDataPart \<lparr> data = d, mimeType = mt \<rparr>])
      | FileUri uri mt \<Rightarrow> mapParts new_URL net (i + 1) rest (parts @ [FileDataPart uri mt])
      | UnknownPart tag \<Rightarrow> mapParts new_URL net (i + 1) rest parts)"

definition mapContentToGeminiParts ::
  "(string \<Rightarrow> URL option) \<Rightarrow> (nat \<Rightarrow> string \<Rightarrow> media_response) \<Rightarrow> message_content
   \<Rightarrow> js_error + GeminiPart list" where
  "mapContentToGeminiParts new_URL net content =
     (case content of
        Str s \<Rightarrow> Inr [TextPart s]
      | Parts ps \<Rightarrow> mapParts new_URL net 0 ps [])"

datatype role = User | Assistant | Model | System

record Message =
  role :: role
  content :: message_content

record GeminiContent =
  gc_role :: role
  gc_parts :: "GeminiPart list"

record mapped =
  contents :: "GeminiContent list"
  system_instruction :: "string option"

text \<open>
  White space and line terminators that \<open>trim()\<close> removes, among the code units below
  256: tab, line feed, vertical tab, form feed, carriage return, space, no-break space.
\<close>

definition is_space :: "char \<Rightarrow> bool" where
  "is_space c = (c \<in> set [CHR 0x09, CHR 0x0A, CHR 0x0B, CHR 0x0C, CHR 0x0D, CHR 0x20, CHR 0xA0])"

definition trim :: "string \<Rightarrow> string" where
  "trim s = rev (dropWhile is_space (rev (dropWhile is_space s)))"

text \<open>
  The text of a system message: the string itself, or
  \<open>content.find(p => p.type === 'text')?.text || ''\<close>.
\<close>

fun find_text :: "ContentPart list \<Rightarrow> string" where
  "find_text [] = []"
| "find_text (Text t # _) = t"
| "find_text (_ # ps) = find_text ps"

definition messageText :: "message_content \<Rightarrow> string" where
  "messageText c = (case c of Str s \<Rightarrow> s | Parts ps \<Rightarrow> find_text ps)"

text \<open>
  The loop of \<open>mapMessagesToGeminiContents\<close> over the messages from position \<open>j\<close> on,
  with the arrays \<open>contents\<close> and \<open>systemMessages\<close> built so far. \<open>net j i\<close> is the
  network as the request for part \<open>i\<close> of message \<open>j\<close> finds it.
\<close>

fun mapMessages_loop ::
  "(string \<Rightarrow> URL option) \<Rightarrow> (nat \<Rightarrow> nat \<Rightarrow> string \<Rightarrow> media_response) \<Rightarrow> nat \<Rightarrow> Message list
   \<Rightarrow> GeminiContent list \<Rightarrow> string list \<Rightarrow> js_error + GeminiContent list \<times> string list" where
  "mapMessages_loop new_URL net j [] cs systemMessages = Inr (cs, systemMessages)"
| "mapMessages_loop new_URL net j (msg # rest) cs systemMessages =
     (if role msg = System then
        (let t = messageText (content msg) in
         mapMessages_loop new_URL net (j + 1) rest cs
           (if trim t \<noteq> [] then systemMessages @ [trim t] else systemMessages))
      else
        (let r = (if role msg = Assistant then Model else role msg) in
         case mapContentToGeminiParts new_URL (net j) (content msg) of
           Inl e \<Rightarrow> Inl e
         | Inr parts \<Rightarrow>
             mapMessages_loop new_URL net (j + 1) rest
               (if length parts > 0 then cs @ [\<lparr> gc_role = r, gc_parts = parts \<rparr>] else cs)
               systemMessages))"

definition mapMessagesToGeminiContents ::
  "(string \<Rightarrow> URL option) \<Rightarrow> (nat \<Rightarrow> nat \<Rightarrow> string \<Rightarrow> media_response) \<Rightarrow> Message list
   \<Rightarrow> string option \<Rightarrow> js_error + mapped" where
  "mapMessagesToGeminiContents new_URL net messages systemInstruction =
     (case mapMessages_loop new_URL net 0 messages []
             (case systemInstruction of
                None \<Rightarrow> []
              | Some s \<Rightarrow> if s \<noteq> [] then [s] else []) of
        Inl e \<Rightarrow> Inl e
      | Inr (cs, systemMessages) \<Rightarrow>
          (let finalSystemText =
                 (if length systemMessages > 0
                  then Some (join [CHR 0x0A, CHR 0x0A] systemMessages) else None)
           in Inr \<lparr> contents = cs,
                    system_instruction = or_else finalSystemText None \<rparr>))"

section \<open>Values used to state the properties of the content mapper\<close>

text \<open>A part with a recognized tag, and an inline-bytes part over the size ceiling.\<close>

fun recognized :: "ContentPart \<Rightarrow> bool" where
  "recognized (UnknownPart tag) = False"
| "recognized _ = True"

fun oversize :: "ContentPart \<Rightarrow> bool" where
  "oversize (InlineData d mt) = (\<not> validateDataSize d)"
| "oversize _ = False"

text \<open>
  What has to stand for a media reference: when the fetch of the URL fails, the text
  part that names the URL and the error; when it gives data within the size ceiling, the
  inline part with exactly that data; when it gives more, the text part that names the
  URL and says so.
\<close>

definition media_native ::
  "(string \<Rightarrow> URL option) \<Rightarrow> (string \<Rightarrow> media_response) \<Rightarrow> string \<Rightarrow> string option
   \<Rightarrow> GeminiPart \<Rightarrow> bool" where
  "media_native new_URL net url mimeHint g =
     (case fetchAsInlineData new_URL net url mimeHint of
        Inl e \<Rightarrow>
          g = TextPart (''[Error loading media from '' @ url @ '': '' @
                        error_to_string e @ '']'')
      | Inr d \<Rightarrow>
          if validateDataSize (data d) then g = InlineDataPart d
          else g = TextPart (''[Error loading media from '' @ url @
                             '': Error: Media file too large: '' @ url @ '']''))"

text \<open>
  \<open>corresponds new_URL net (i, p) g\<close>: the native part \<open>g\<close> stands for the part \<open>p\<close>
  at position \<open>i\<close> of the input.
\<close>

fun corresponds ::
  "(string \<Rightarrow> URL option) \<Rightarrow> (nat \<Rightarrow> string \<Rightarrow> media_response) \<Rightarrow> nat \<times> ContentPart
   \<Rightarrow> GeminiPart \<Rightarrow> bool" where
  "corresponds new_URL net (i, Text t) g = (g = TextPart t)"
| "corresponds new_URL net (i, ImageUrl url mt) g = media_native new_URL (net i) url mt g"
| "corresponds new_URL net (i, AudioUrl url mt) g = media_native new_URL (net i) url mt g"
| "corresponds new_URL net (i, VideoUrl url mt) g = media_native new_URL (net i) url mt g"
| "corresponds new_URL net (i, InlineData d mt) g =
     (g = InlineDataPart \<lparr> data = d, mimeType = mt \<rparr>)"
| "corresponds new_URL net (i, FileUri uri mt) g = (g = FileDataPart uri mt)"
| "corresponds new_URL net (i, UnknownPart tag) g = False"

text \<open>The parts with a recognized tag, each with its position in the input.\<close>

definition recognized_parts :: "ContentPart list \<Rightarrow> (nat \<times> ContentPart) list" where
  "recognized_parts ps = filter (\<lambda>ip. recognized (snd ip)) (List.enumerate 0 ps)"

text \<open>A list with every kind of part; the remote image is not reachable.\<close>

definition sample_parts :: "ContentPart list" where
  "sample_parts =
     [Text ''a'', ImageUrl ''https://example.com/a.png'' None, UnknownPart ''zzz'',
      ImageUrl ''data:image/png;base64,AAAA'' None, FileUri ''files/1'' None,
      InlineData ''AAAA'' ''image/png'']"

text \<open>
  The fragments that the system messages contribute: the trimmed text of each message,
  where that is not empty, in order.
\<close>

definition system_fragments :: "Message list \<Rightarrow> string list" where
  "system_fragments messages =
     filter (\<lambda>t. t \<noteq> []) (map (\<lambda>m. trim (messageText (content m))) messages)"

section \<open>Embeddings (providers/gemini.ts, index.ts)\<close>

record GenerateEmbeddingsParams =
  ep_model :: string
  ep_texts :: "string list"
  ep_taskType :: "string option"
  ep_outputDimensionality :: "int option"

text \<open>One element of \<open>requestBody.requests\<close>; its content is the single text part.\<close>

record embed_request =
  req_model :: string
  req_text :: string
  req_taskType :: "string option"
  req_outputDimensionality :: "int option"

definition embed_requests :: "GenerateEmbeddingsParams \<Rightarrow> embed_request list" where
  "embed_requests params =
     map (\<lambda>text.
            \<lparr> req_model = (if prefix ''models/'' (ep_model params) then ep_model params
                            else ''models/'' @ ep_model params),
              req_text = text,
              req_taskType =
                (case ep_taskType params of
                   None \<Rightarrow> None
                 | Some t \<Rightarrow> if t \<noteq> [] \<and> t \<noteq> ''EMBEDDING_TASK_TYPE_UNSPECIFIED''
                             then Some t else None),
              req_outputDimensionality =
                (case ep_outputDimensionality params of
                   None \<Rightarrow> None
                 | Some n \<Rightarrow> if n > 0 then Some n else None) \<rparr>)
         (ep_texts params)"

text \<open>
  \<open>`${embeddings?.length ?? 0}`\<close>, the count in the log line that follows the call of
  \<open>fetchWithRetry\<close>: the length of an array or a string, the converted property of
  that name of an object, and \<open>0\<close> where there is no length or it is \<open>null\<close>.
\<close>

definition embeddings_count_text :: "json option \<Rightarrow> js_error + string" where
  "embeddings_count_text embeddings =
     (case embeddings of
        Some (JArr xs) \<Rightarrow> Inr (show_nat (length xs))
      | Some (JStr t) \<Rightarrow> Inr (show_nat (length t))
      | Some (JObj kvs) \<Rightarrow>
          (case map_of kvs ''length'' of
             None \<Rightarrow> Inr ''0''
           | Some JNull \<Rightarrow> Inr ''0''
           | Some n \<Rightarrow> to_string n)
      | _ \<Rightarrow> Inr ''0'')"

text \<open>
  \<open>generateEmbeddings\<close>: the two precondition checks, one call of \<open>fetchWithRetry\<close>,
  then the log line, which reads \<open>res.embeddings\<close> and throws a TypeError when \<open>res\<close> is
  \<open>null\<close> or the count cannot be converted to a string. \<open>server requests k\<close> is the
  provider's answer to the \<open>k\<close>-th attempt to post \<open>requests\<close>.
\<close>

definition generateEmbeddings ::
  "(string \<Rightarrow> thrown + json) \<Rightarrow> (embed_request list \<Rightarrow> nat \<Rightarrow> fetch_result)
   \<Rightarrow> GenerateEmbeddingsParams \<Rightarrow> (json option) run" where
  "generateEmbeddings JSON_parse server params =
     (if ep_model params = []
      then \<lparr> outcome = Inl (Err ''generateEmbeddings: \"model\" is required''),
             sleeps = [], calls = 0 \<rparr>
      else if length (ep_texts params) = 0
      then \<lparr> outcome = Inl (Err ''generateEmbeddings: \"texts\" must be a non-empty array''),
             sleeps = [], calls = 0 \<rparr>
      else (let r = fetchWithRetry JSON_parse (server (embed_requests params)) True in
            case outcome r of
              Inl e \<Rightarrow> r
            | Inr res \<Rightarrow>
                (case (case get_prop_opt res ''embeddings'' of
                         Inl e \<Rightarrow> Inl e
                       | Inr e \<Rightarrow> embeddings_count_text e) of
                   Inl e \<Rightarrow> r \<lparr> outcome := Inl (Err (js_error_message e)) \<rparr>
                 | Inr line \<Rightarrow> r)))"

text \<open>
  \<open>embedding.values || []\<close> for one element of the provider's array: a \<open>null\<close> element
  throws, an array element has a method of that name, an object is looked up, and a
  missing or falsy value gives the empty array.
\<close>

datatype embedding_values = Values json | ValuesMethod

fun values_or_empty :: "json \<Rightarrow> js_error + embedding_values" where
  "values_or_empty JNull =
     Inl (TypeError (''Cannot read properties of null (reading '' @ [CHR 0x27] @ ''values'' @
                     [CHR 0x27] @ '')''))"
| "values_or_empty (JArr xs) = Inr ValuesMethod"
| "values_or_empty (JObj kvs) =
     Inr (case map_of kvs ''values'' of
            None \<Rightarrow> Values (JArr [])
          | Some v \<Rightarrow> if truthy v then Values v else Values (JArr []))"
| "values_or_empty _ = Inr (Values (JArr []))"

text \<open>\<open>.map((embedding, index) => ({ index, values: embedding.values || [] }))\<close>\<close>

fun index_values :: "nat \<Rightarrow> json list \<Rightarrow> js_error + (nat \<times> embedding_values) list" where
  "index_values index [] = Inr []"
| "index_values index (embedding # rest) =
     (case values_or_empty embedding of
        Inl e \<Rightarrow> Inl e
      | Inr v \<Rightarrow>
          (case index_values (index + 1) rest of
             Inl e \<Rightarrow> Inl e
           | Inr out \<Rightarrow> Inr ((index, v) # out)))"

text \<open>
  The \<open>gemini_embeddings\<close> handler after its arguments are parsed: the call of the
  client, then \<open>(result.embeddings || []).map(...)\<close>. An error becomes the text of the
  error response of the handler's own \<open>catch\<close>, or, when rendering the error there
  throws, of the \<open>catch\<close> around all handlers.
\<close>

definition embeddings_of_result :: "json option \<Rightarrow> js_error + (nat \<times> embedding_values) list" where
  "embeddings_of_result result =
     (case get_prop_opt result ''embeddings'' of
        Inl e \<Rightarrow> Inl e
      | Inr e \<Rightarrow>
          if \<not> truthy_opt e then Inr []
          else (case e of
                  Some (JArr es) \<Rightarrow> index_values 0 es
                | _ \<Rightarrow> Inl (TypeError ''(result.embeddings || []).map is not a function'')))"

text \<open>\<open>error instanceof Error ? error.message : String(error)\<close>\<close>

fun thrown_text :: "thrown \<Rightarrow> js_error + string" where
  "thrown_text Undefined = Inr ''undefined''"
| "thrown_text (NotAnError v) = to_string v"
| "thrown_text e = Inr (message e)"

definition embeddings_handler ::
  "(string \<Rightarrow> thrown + json) \<Rightarrow> (embed_request list \<Rightarrow> nat \<Rightarrow> fetch_result)
   \<Rightarrow> GenerateEmbeddingsParams \<Rightarrow> string + (nat \<times> embedding_values) list" where
  "embeddings_handler JSON_parse server params =
     (case outcome (generateEmbeddings JSON_parse server params) of
        Inl e \<Rightarrow>
          (case thrown_text e of
             Inl te \<Rightarrow> Inl (''Gemini API error: '' @ js_error_message te)
           | Inr t \<Rightarrow> Inl (''Generate embeddings failed: '' @ t))
      | Inr result \<Rightarrow>
          (case embeddings_of_result result of
             Inl e \<Rightarrow> Inl (''Generate embeddings failed: '' @ js_error_message e)
           | Inr embeddings \<Rightarrow> Inr embeddings))"




section \<open>Properties of the retry loops\<close>

lemma retryWithBackoff_loop_run:
  "attempt + n \<le> maxR \<Longrightarrow>
   (\<forall>k<n. retryable_failure (operation (attempt + k))) \<Longrightarrow>
   (attempt + n = maxR \<or> \<not> retryable_failure (operation (attempt + n))) \<Longrightarrow>
   retryWithBackoff_loop operation maxR attempt lastError slept =
     \<lparr> outcome = operation (attempt + n),
       sleeps = slept @ map (\<lambda>i. 2 ^ i * 1000) [attempt ..< attempt + n],
       calls = attempt + n + 1 \<rparr>"
proof (induction n arbitrary: attempt lastError slept)
  case 0
  then show ?case
    by (subst retryWithBackoff_loop.simps)
       (auto simp: retryable_failure_def retryable_def split: sum.splits)
next
  case (Suc n)
  from Suc.prems(2) have r0: "retryable_failure (operation attempt)"
    by (metis add.right_neutral zero_less_Suc)
  then obtain e where e: "operation attempt = Inl e" "retryable e"
    by (auto simp: retryable_failure_def split: sum.splits)
  have lt: "attempt < maxR" using Suc.prems(1) by simp
  have step: "retryWithBackoff_loop operation maxR attempt lastError slept =
      retryWithBackoff_loop operation maxR (attempt + 1) e (slept @ [2 ^ attempt * 1000])"
    using e lt by (subst retryWithBackoff_loop.simps) (auto simp: retryable_def)
  have "retryWithBackoff_loop operation maxR (attempt + 1) e (slept @ [2 ^ attempt * 1000]) =
     \<lparr> outcome = operation (attempt + 1 + n),
       sleeps = (slept @ [2 ^ attempt * 1000]) @
                map (\<lambda>i. 2 ^ i * 1000) [attempt + 1 ..< attempt + 1 + n],
       calls = attempt + 1 + n + 1 \<rparr>"
  proof (rule Suc.IH)
    show "attempt + 1 + n \<le> maxR" using Suc.prems(1) by simp
    show "\<forall>k<n. retryable_failure (operation (attempt + 1 + k))"
      using Suc.prems(2) by (metis Suc_less_eq add_Suc_right add_Suc_shift Suc_eq_plus1)
    show "attempt + 1 + n = maxR \<or> \<not> retryable_failure (operation (attempt + 1 + n))"
      using Suc.prems(3) by simp
  qed
  moreover have "[attempt ..< attempt + Suc n] = attempt # [attempt + 1 ..< attempt + 1 + n]"
    by (simp add: upt_rec)
  ultimately show ?case using step by simp
qed

text \<open>
  C1. The claim: for \<open>uploadFile\<close>, \<open>listFiles\<close>, \<open>deleteFile\<close> and
  \<open>generateEmbeddings\<close>, a non-2xx status other than 429 and 5xx is thrown on the first
  attempt, with no retry. The code: the error built for such a status is thrown inside the
  \<open>try\<close> block whose \<open>catch\<close> retries, so a server that always answers 404 is asked
  four times, with sleeps of 500, 1000 and 2000 ms, before the error reaches the caller.
\<close>

theorem fetchWithRetry_retries_404:
  "fetchWithRetry (\<lambda>text. Inl (Err ''Unexpected end of JSON input''))
     (\<lambda>k. HttpResponse 404 ''Not Found'' []) True =
     \<lparr> outcome = Inl (ApiError ''Gemini API error 404: Not Found'' 404 None),
       sleeps = [500, 1000, 2000], calls = 4 \<rparr>"
  by code_simp

text \<open>
  The other way out of the loop: a server that always answers 503 is asked four times,
  the loop sleeps after each answer, the last time for 4000 ms, and what is thrown then
  is \<open>lastError\<close>, which was never assigned.
\<close>

lemma fetchWithRetry_exhausted_503:
  "fetchWithRetry (\<lambda>text. Inl (Err ''Unexpected end of JSON input''))
     (\<lambda>k. HttpResponse 503 ''Service Unavailable'' []) True =
     \<lparr> outcome = Inl Undefined, sleeps = [500, 1000, 2000, 4000], calls = 4 \<rparr>"
  by code_simp

text \<open>
  C2, as the code has it. Let \<open>n \<le> 3\<close> be the first attempt of \<open>generateContent\<close>
  that succeeds or fails with a failure that is not retryable, or 3 when the first three
  attempts all fail with retryable failures. Then exactly \<open>n + 1\<close> attempts are made, the
  sleeps are the first \<open>n\<close> of 1000, 2000, 4000 ms, and the result of attempt \<open>n\<close> is what
  the caller gets, unchanged. A failure is retryable only when it is an \<open>Error\<close> whose
  message contains \<open>429\<close> or the character \<open>5\<close> and does not contain \<open>400\<close>; so a
  failure whose message contains \<open>400\<close>, and one whose message contains none of the
  three, ends the call at once (\<open>n = 0\<close>: one attempt, no sleep).
\<close>

theorem generateContent_retry_policy:
  assumes "n \<le> 3"
    and "\<forall>k<n. retryable_failure (generate_attempt JSON_parse (net k))"
    and "n = 3 \<or> \<not> retryable_failure (generate_attempt JSON_parse (net n))"
  shows "generateContent JSON_parse net =
           \<lparr> outcome = generate_attempt JSON_parse (net n),
             sleeps = map (\<lambda>i. 2 ^ i * 1000) [0 ..< n],
             calls = n + 1 \<rparr>"
  using retryWithBackoff_loop_run
          [of 0 n 3 "\<lambda>k. generate_attempt JSON_parse (net k)" Undefined "[]"] assms
  by (simp add: generateContent_def retryWithBackoff_def)

text \<open>
  The theorem at a server that always answers 503: three retryable failures, then the
  fourth attempt's error.
\<close>

theorem generateContent_retry_policy_witness:
  "generateContent (\<lambda>text. Inl (Err ''Unexpected end of JSON input'')) (\<lambda>k. HttpResponse 503 ''Service Unavailable'' []) =
     \<lparr> outcome = Inl (Err ''503 Service Unavailable - ''),
       sleeps = [1000, 2000, 4000], calls = 4 \<rparr>"
proof -
  have r: "retryable_failure
             (generate_attempt (\<lambda>text. Inl (Err ''Unexpected end of JSON input'')) (HttpResponse 503 ''Service Unavailable'' []))"
    by code_simp
  have g: "generate_attempt (\<lambda>text. Inl (Err ''Unexpected end of JSON input'')) (HttpResponse 503 ''Service Unavailable'' []) =
             Inl (Err ''503 Service Unavailable - '')"
    by code_simp
  have u: "map (\<lambda>i. 2 ^ i * 1000) [0 ..< 3] = [1000, 2000, 4000::nat]"
    by code_simp
  show ?thesis
    using generateContent_retry_policy
            [of 3 "\<lambda>text. Inl (Err ''Unexpected end of JSON input'')" "\<lambda>k. HttpResponse 503 ''Service Unavailable'' []"] r
    by (simp add: g u)
qed

text \<open>
  The claim as stated (every failure is retried unless its message contains \<open>400\<close>)
  fails when the 60 second timer aborts the request: \<open>fetch\<close> rejects with an error
  whose message has no \<open>5\<close> and no \<open>429\<close>; the message does not contain \<open>400\<close>, and
  still one attempt is made.
\<close>

theorem generateContent_retries_any_failure_counterexample:
  "generate_attempt (\<lambda>text. Inl (Err ''Unexpected end of JSON input''))
     (FetchRejects (Err ''The operation was aborted.'')) =
     Inl (Err ''The operation was aborted.'') \<and>
   \<not> sublist ''400'' ''The operation was aborted.'' \<and>
   generateContent (\<lambda>text. Inl (Err ''Unexpected end of JSON input''))
     (\<lambda>k. FetchRejects (Err ''The operation was aborted.'')) =
     \<lparr> outcome = Inl (Err ''The operation was aborted.''), sleeps = [], calls = 1 \<rparr>"
  by code_simp

section \<open>Properties of the response normalizer\<close>

text \<open>
  C7. \<open>isBlocked\<close> is true exactly when the response has no candidate (the array is
  missing or empty), or the first candidate's finish reason is \<open>SAFETY\<close> or
  \<open>BLOCKED_REASON_UNSPECIFIED\<close>.
\<close>

theorem isBlocked_iff:
  "isBlocked response \<longleftrightarrow>
     (candidates response = None \<or> candidates response = Some [] \<or>
      (\<exists>c cs. candidates response = Some (c # cs) \<and>
         (cand_finishReason c = Some ''SAFETY'' \<or>
          cand_finishReason c = Some ''BLOCKED_REASON_UNSPECIFIED'')))"
  by (cases "candidates response"; cases "the (candidates response)")
     (auto simp: isBlocked_def or_empty_def)

text \<open>
  The typed reading of the response and the untyped one agree: on the value that
  \<open>JSON.parse\<close> gives for a response of the declared type, \<open>isBlocked_untyped\<close>
  returns what \<open>isBlocked\<close> says, and that value is of the declared type as the
  predicate \<open>GeminiResponse_type\<close> reads it.
\<close>

lemma map_of_optional_field:
  "map_of (optional_field name encode v @ rest) key =
     (if key = name \<and> v \<noteq> None then map_option encode v else map_of rest key)"
  by (cases v) (simp_all add: optional_field_def)

lemma map_of_optional_field_last:
  "map_of (optional_field name encode v) key =
     (if key = name then map_option encode v else None)"
  by (cases v) (simp_all add: optional_field_def)

lemma isBlocked_untyped_typed:
  "isBlocked_untyped (json_of_response r) = Inr (isBlocked r)"
proof (cases "candidates r")
  case None
  then show ?thesis
    by (simp add: isBlocked_untyped_def candidates_or_empty_def json_of_response_def
          map_of_optional_field map_of_optional_field_last or_array_def isBlocked_def
          or_empty_def del: map_of_append)
next
  case (Some cs)
  show ?thesis
  proof (cases cs)
    case Nil
    with Some show ?thesis
      by (simp add: isBlocked_untyped_def candidates_or_empty_def json_of_response_def
            map_of_optional_field or_array_def isBlocked_def or_empty_def
            del: map_of_append)
  next
    case (Cons c rest)
    have f: "get_prop (json_of_candidate c) ''finishReason'' =
               Inr (map_option JStr (cand_finishReason c))"
      by (simp add: json_of_candidate_def map_of_optional_field map_of_optional_field_last
            del: map_of_append)
    from Some Cons show ?thesis
      by (cases "cand_finishReason c")
         (simp_all add: isBlocked_untyped_def candidates_or_empty_def json_of_response_def
            map_of_optional_field or_array_def isBlocked_def or_empty_def get_prop_opt_def f
            del: map_of_append)
  qed
qed

lemma optional_map_option: "optional T (map_option encode v) = (case v of None \<Rightarrow> True | Some x \<Rightarrow> T (encode x))"
  by (cases v) (simp_all add: optional_def)

lemma part_type_json: "part_type (json_of_part p)"
  by (simp add: part_type_def json_of_part_def map_of_optional_field
        map_of_optional_field_last optional_map_option optional_def any_def split: option.splits
        del: map_of_append)

lemma content_type_json: "content_type (json_of_content c)"
  by (simp add: content_type_def json_of_content_def map_of_optional_field
        map_of_optional_field_last optional_map_option optional_def list_all_iff part_type_json
        split: option.splits del: map_of_append)

lemma candidate_type_json: "candidate_type (json_of_candidate c)"
  by (simp add: candidate_type_def json_of_candidate_def map_of_optional_field
        map_of_optional_field_last optional_map_option optional_def list_all_iff content_type_json any_def
        split: option.splits del: map_of_append)

lemma json_of_response_type: "GeminiResponse_type (json_of_response r)"
  by (simp add: GeminiResponse_type_def json_of_response_def map_of_optional_field
        map_of_optional_field_last optional_map_option optional_def list_all_iff candidate_type_json
        promptFeedback_type_def usageMetadata_type_def json_of_usageMetadata_def any_def
        split: option.splits del: map_of_append)

section \<open>Properties of the normalizer on any parsed value\<close>
























section \<open>Properties of the upload source validation\<close>

lemma base64_digit_class: "base64_class (base64_digit n)"
  unfolding base64_class_def base64_digit_def
  by (rule nth_mem) simp

lemma base64_digit_not_pad: "base64_digit n \<noteq> CHR ''=''"
proof
  assume "base64_digit n = CHR ''=''"
  with base64_digit_class [of n] have "base64_class (CHR ''='')" by simp
  then show False by (simp add: base64_class_def)
qed

lemma base64Regex_encode: "base64Regex (base64_encode bytes)"
  by (induction bytes rule: base64_encode.induct)
     (simp_all add: base64_digit_class base64_digit_not_pad)

lemma length_base64_encode: "length (base64_encode bytes) = 4 * ((length bytes + 2) div 3)"
proof (induction bytes rule: base64_encode.induct)
  case (4 a b c rest)
  have "(length (a # b # c # rest) + 2) div 3 = Suc ((length rest + 2) div 3)" by simp
  with 4 show ?case by simp
qed simp_all

lemma suffix_Cons_long:
  "length xs \<le> length zs \<Longrightarrow> suffix xs (y # zs) \<longleftrightarrow> suffix xs zs"
  by (auto simp: suffix_Cons)

lemma padding_base64_encode:
  "(if suffix ''=='' (base64_encode bytes) then 2
    else if suffix ''='' (base64_encode bytes) then 1 else (0::int)) =
   int ((3 - length bytes mod 3) mod 3)"
proof (induction bytes rule: base64_encode.induct)
  case 1
  then show ?case by (simp add: suffix_def)
next
  case (2 a)
  then show ?case by (simp add: suffix_def)
next
  case (3 a b)
  have "\<not> suffix ''=='' (base64_encode [a, b])"
    using base64_digit_not_pad [of "unat b mod 16 * 4"]
    by (auto simp: suffix_def Cons_eq_append_conv append_eq_Cons_conv)
  moreover have "suffix ''='' (base64_encode [a, b])"
    by (simp add: suffix_def)
  ultimately show ?case by simp
next
  case (4 a b c rest)
  show ?case
  proof (cases rest)
    case Nil
    have "\<not> suffix ''='' (base64_encode [a, b, c])"
      using base64_digit_not_pad [of "unat c mod 64"]
      by (auto simp: suffix_def Cons_eq_append_conv append_eq_Cons_conv)
    moreover have "\<not> suffix ''=='' (base64_encode [a, b, c])"
      using base64_digit_not_pad [of "unat c mod 64"]
      by (auto simp: suffix_def Cons_eq_append_conv append_eq_Cons_conv)
    ultimately show ?thesis using Nil by simp
  next
    case (Cons r rs)
    then have len: "2 \<le> length (base64_encode rest)"
      by (simp add: length_base64_encode)
    have s2: "suffix ''=='' (base64_encode (a # b # c # rest)) = suffix ''=='' (base64_encode rest)"
      using len by (simp add: suffix_Cons_long)
    have s1: "suffix ''='' (base64_encode (a # b # c # rest)) = suffix ''='' (base64_encode rest)"
      using len by (simp add: suffix_Cons_long)
    show ?thesis using "4.IH" by (simp only: s1 s2) simp
  qed
qed


lemma three_groups: "3 * ((n + 2) div 3) = n + (3 - n mod 3) mod 3" for n :: nat
proof -
  obtain q r where n: "n = 3 * q + r" "r < 3"
    by (metis mod_less_divisor mult_div_mod_eq zero_less_numeral)
  have m: "n mod 3 = r" using n by simp
  have d: "(n + 2) div 3 = q + (r + 2) div 3" using n by (simp add: add.assoc)
  from n(2) consider "r = 0" | "r = 1" | "r = 2" by linarith
  then show ?thesis unfolding m d using n(1) by cases simp_all
qed

lemma approximate_exact:
  "approximateBase64DecodedBytes (base64_encode bytes) = int (length bytes)"
proof -
  let ?n = "length bytes"
  have "(int (4 * ((?n + 2) div 3)) * 3) div 4 = int (3 * ((?n + 2) div 3))"
    by simp
  also have "\<dots> = int ?n + int ((3 - ?n mod 3) mod 3)"
    by (simp only: three_groups of_nat_add)
  finally have "(int (4 * ((?n + 2) div 3)) * 3) div 4 - int ((3 - ?n mod 3) mod 3) = int ?n"
    by simp
  then show ?thesis
    unfolding approximateBase64DecodedBytes_def Let_def
    by (simp only: padding_base64_encode length_base64_encode)
qed

lemma base64_class_pad: "\<not> base64_class (CHR ''='')"
  by (simp add: base64_class_def)

lemma base64_groups_encode: "base64_groups (base64_encode bytes) = length bytes div 3"
  by (induction bytes rule: base64_encode.induct)
     (simp_all add: base64_digit_class base64_class_pad)

text \<open>
  Within the limit of the engine the schema does what the claim says: it accepts the
  payload of a non-empty content of at most 52428800 bytes (50 MiB) and no other, and the
  size that \<open>approximateBase64DecodedBytes\<close> computes from the length and the padding
  is exactly the number of bytes the payload encodes.
\<close>

lemma SourceBase64Schema_within_limit:
  assumes "length bytes div 3 \<le> limit"
  shows "approximateBase64DecodedBytes (base64_encode bytes) = int (length bytes) \<and>
         (SourceBase64Schema limit (base64_encode bytes) = Inr [] \<longleftrightarrow>
            0 < length bytes \<and> length bytes \<le> 52428800)"
proof -
  have len4: "4 \<le> length (base64_encode bytes) \<longleftrightarrow> 0 < length bytes"
  proof (cases bytes)
    case Nil
    then show ?thesis by simp
  next
    case (Cons b bs)
    have "1 \<le> (length bytes + 2) div 3" using Cons by simp
    then show ?thesis using Cons unfolding length_base64_encode by simp
  qed
  have t: "base64Regex_test limit (base64_encode bytes) = Inr True"
    using assms by (simp add: base64Regex_test_def base64_groups_encode base64Regex_encode)
  have "SourceBase64Schema limit (base64_encode bytes) = Inr [] \<longleftrightarrow>
      0 < length bytes \<and> length bytes \<le> 52428800"
    unfolding SourceBase64Schema_def Let_def t
    by (simp add: len4 approximate_exact MAX_UPLOAD_BYTES_def)
  then show ?thesis using approximate_exact by simp
qed

text \<open>
  C9. The claim: a payload whose decoded size is exactly 50 MiB (52428800 bytes) is
  accepted. The code: the schema tests the payload against \<open>base64Regex\<close> before it
  computes the size, and the starred group of that expression runs once for every four
  characters, 17476266 times on this payload; on an engine whose backtrack stack holds
  fewer iterations the test throws a RangeError, which nothing catches, although the size
  that the check would compute is exactly 52428800 and within the ceiling.
\<close>

theorem SourceBase64Schema_50MiB_throws:
  assumes "limit < 17476266" and "length bytes = 52428800"
  shows "approximateBase64DecodedBytes (base64_encode bytes) = 52428800 \<and>
         approximateBase64DecodedBytes (base64_encode bytes) \<le> MAX_UPLOAD_BYTES \<and>
         SourceBase64Schema limit (base64_encode bytes) =
           Inl (NamedError ''RangeError'' ''Maximum call stack size exceeded'')"
proof -
  have g: "base64_groups (base64_encode bytes) = 17476266"
    unfolding base64_groups_encode assms(2) by simp
  have "base64Regex_test limit (base64_encode bytes) =
          Inl (NamedError ''RangeError'' ''Maximum call stack size exceeded'')"
    unfolding base64Regex_test_def g using assms(1) by simp
  then have "SourceBase64Schema limit (base64_encode bytes) =
           Inl (NamedError ''RangeError'' ''Maximum call stack size exceeded'')"
    by (simp add: SourceBase64Schema_def)
  moreover have "approximateBase64DecodedBytes (base64_encode bytes) = 52428800"
    unfolding approximate_exact assms(2) by simp
  ultimately show ?thesis by (simp add: MAX_UPLOAD_BYTES_def)
qed

text \<open>
  The theorem at 52428800 zero bytes and an engine that holds 1117500 iterations (a
  payload of 4470000 characters).
\<close>

theorem SourceBase64Schema_50MiB_throws_witness:
  "(1117500 :: nat) < 17476266 \<and>
   length (replicate 52428800 (0 :: 8 word)) = 52428800 \<and>
   SourceBase64Schema 1117500 (base64_encode (replicate 52428800 0)) =
     Inl (NamedError ''RangeError'' ''Maximum call stack size exceeded'')"
proof -
  have a: "(1117500 :: nat) < 17476266" by simp
  have b: "length (replicate 52428800 (0 :: 8 word)) = 52428800"
    by (simp only: length_replicate)
  from SourceBase64Schema_50MiB_throws [OF a b]
  have c: "SourceBase64Schema 1117500 (base64_encode (replicate 52428800 0)) =
     Inl (NamedError ''RangeError'' ''Maximum call stack size exceeded'')"
    by blast
  from a b c show ?thesis by blast
qed

section \<open>Properties of the media fetcher\<close>

text \<open>
  C4. Whenever the platform's URL parser gives the five literal URLs their protocol and
  host name, \<open>validateUrl\<close> rejects \<open>http://127.0.0.1/x\<close>, \<open>http://localhost/x\<close>,
  \<open>https://169.254.169.254/\<close> and \<open>ftp://example.com\<close> (unsupported protocol) and accepts
  \<open>https://example.com/image.png\<close>; the fetch of a rejected URL fails with that error
  whatever the network would answer; and an input that starts with \<open>data:\<close> is parsed and
  returned by \<open>parseDataUrl\<close> alone, whatever the URL parser and the network are (no URL
  validation and no request).
\<close>

theorem validateUrl_literals:
  assumes "new_URL ''http://127.0.0.1/x'' = Some \<lparr> protocol = ''http:'', hostname = ''127.0.0.1'' \<rparr>"
    and "new_URL ''http://localhost/x'' = Some \<lparr> protocol = ''http:'', hostname = ''localhost'' \<rparr>"
    and "new_URL ''https://169.254.169.254/'' =
           Some \<lparr> protocol = ''https:'', hostname = ''169.254.169.254'' \<rparr>"
    and "new_URL ''ftp://example.com'' = Some \<lparr> protocol = ''ftp:'', hostname = ''example.com'' \<rparr>"
    and "new_URL ''https://example.com/image.png'' =
           Some \<lparr> protocol = ''https:'', hostname = ''example.com'' \<rparr>"
  shows "(validateUrl new_URL ''http://127.0.0.1/x'' =
           Inl (Error ''Access to IP range '127.0.0.1' is not allowed'')) \<and>
    (validateUrl new_URL ''http://localhost/x'' =
           Inl (Error ''Access to hostname 'localhost' is not allowed'')) \<and>
    (validateUrl new_URL ''https://169.254.169.254/'' =
           Inl (Error ''Access to hostname '169.254.169.254' is not allowed'')) \<and>
    (validateUrl new_URL ''ftp://example.com'' =
           Inl (Error ''Unsupported protocol: ftp:. Only HTTP and HTTPS are allowed.'')) \<and>
    (validateUrl new_URL ''https://example.com/image.png'' = Inr ()) \<and>
    (fetchAsInlineData new_URL net ''http://127.0.0.1/x'' hint =
           Inl (Error ''Access to IP range '127.0.0.1' is not allowed'')) \<and>
    (prefix ''data:'' url \<longrightarrow> fetchAsInlineData new_URL net url hint = parseDataUrl url) \<and>
    (fetchAsInlineData new_URL net ''data:image/png;base64,iVBORw0KG'' hint =
           Inr \<lparr> data = ''iVBORw0KG'', mimeType = ''image/png'' \<rparr>)"
proof (intro conjI)
  show a: "validateUrl new_URL ''http://127.0.0.1/x'' =
           Inl (Error ''Access to IP range '127.0.0.1' is not allowed'')"
    by (simp add: validateUrl_def assms(1) toLowerCase_def DISALLOWED_HOSTNAMES_def
          DISALLOWED_NETWORKS_def)
  show "validateUrl new_URL ''http://localhost/x'' =
           Inl (Error ''Access to hostname 'localhost' is not allowed'')"
    by (simp add: validateUrl_def assms(2) toLowerCase_def DISALLOWED_HOSTNAMES_def)
  show "validateUrl new_URL ''https://169.254.169.254/'' =
           Inl (Error ''Access to hostname '169.254.169.254' is not allowed'')"
    by (simp add: validateUrl_def assms(3) toLowerCase_def DISALLOWED_HOSTNAMES_def)
  show "validateUrl new_URL ''ftp://example.com'' =
           Inl (Error ''Unsupported protocol: ftp:. Only HTTP and HTTPS are allowed.'')"
    by (simp add: validateUrl_def assms(4))
  show "validateUrl new_URL ''https://example.com/image.png'' = Inr ()"
    by (simp add: validateUrl_def assms(5) toLowerCase_def DISALLOWED_HOSTNAMES_def
          DISALLOWED_NETWORKS_def)
  show "fetchAsInlineData new_URL net ''http://127.0.0.1/x'' hint =
           Inl (Error ''Access to IP range '127.0.0.1' is not allowed'')"
    unfolding fetchAsInlineData_def a by simp
  show "prefix ''data:'' url \<longrightarrow> fetchAsInlineData new_URL net url hint = parseDataUrl url"
    by (simp add: fetchAsInlineData_def)
  show "fetchAsInlineData new_URL net ''data:image/png;base64,iVBORw0KG'' hint =
           Inr \<lparr> data = ''iVBORw0KG'', mimeType = ''image/png'' \<rparr>"
    by (simp add: fetchAsInlineData_def parseDataUrl_def match_data_url_def
          Buffer_from_base64_def line_terminator_def)
qed

text \<open>The theorem with the model of the URL parser and a network that never answers.\<close>

theorem validateUrl_literals_witness:
  "URL_parse ''http://127.0.0.1/x'' = Some \<lparr> protocol = ''http:'', hostname = ''127.0.0.1'' \<rparr> \<and>
   URL_parse ''ftp://example.com'' = Some \<lparr> protocol = ''ftp:'', hostname = ''example.com'' \<rparr> \<and>
   validateUrl URL_parse ''http://127.0.0.1/x'' =
     Inl (Error ''Access to IP range '127.0.0.1' is not allowed'') \<and>
   validateUrl URL_parse ''http://localhost/x'' =
     Inl (Error ''Access to hostname 'localhost' is not allowed'') \<and>
   validateUrl URL_parse ''https://169.254.169.254/'' =
     Inl (Error ''Access to hostname '169.254.169.254' is not allowed'') \<and>
   validateUrl URL_parse ''ftp://example.com'' =
     Inl (Error ''Unsupported protocol: ftp:. Only HTTP and HTTPS are allowed.'') \<and>
   validateUrl URL_parse ''https://example.com/image.png'' = Inr () \<and>
   fetchAsInlineData URL_parse (\<lambda>u. Aborted) ''data:image/png;base64,iVBORw0KG'' None =
     Inr \<lparr> data = ''iVBORw0KG'', mimeType = ''image/png'' \<rparr>"
proof -
  have h1: "URL_parse ''http://127.0.0.1/x'' =
              Some \<lparr> protocol = ''http:'', hostname = ''127.0.0.1'' \<rparr>"
    by code_simp
  have h2: "URL_parse ''http://localhost/x'' =
              Some \<lparr> protocol = ''http:'', hostname = ''localhost'' \<rparr>"
    by code_simp
  have h3: "URL_parse ''https://169.254.169.254/'' =
              Some \<lparr> protocol = ''https:'', hostname = ''169.254.169.254'' \<rparr>"
    by code_simp
  have h4: "URL_parse ''ftp://example.com'' =
              Some \<lparr> protocol = ''ftp:'', hostname = ''example.com'' \<rparr>"
    by code_simp
  have h5: "URL_parse ''https://example.com/image.png'' =
              Some \<lparr> protocol = ''https:'', hostname = ''example.com'' \<rparr>"
    by code_simp
  from validateUrl_literals
         [where new_URL = URL_parse and net = "\<lambda>u. Aborted" and hint = None
            and url = "''data:image/png;base64,iVBORw0KG''", OF h1 h2 h3 h4 h5]
       h1 h4
  show ?thesis by (elim conjE) (intro conjI; assumption)
qed

text \<open>
  C5. The claim: a \<open>data:\<close> URL whose payload is not valid base64 fails. The code: the
  validation is a call of \<open>Buffer.from(data, 'base64')\<close> in a \<open>try\<close> block, which does
  not throw on such a payload, so the payload is returned as it is.
\<close>

theorem parseDataUrl_accepts_invalid_base64:
  "fetchAsInlineData new_URL net ''data:image/png;base64,@@not base64@@'' mimeHint =
     Inr \<lparr> data = ''@@not base64@@'', mimeType = ''image/png'' \<rparr>"
  by (simp add: fetchAsInlineData_def parseDataUrl_def match_data_url_def
        Buffer_from_base64_def line_terminator_def)

section \<open>Properties of the content mapper\<close>

lemma media_part_native: "media_native new_URL n url mt (media_part new_URL n url mt)"
  by (simp add: media_part_def media_native_def error_to_string_def split: sum.splits)

lemma mapParts_corresponds:
  "\<not> list_ex oversize ps \<Longrightarrow>
   \<exists>out. mapParts new_URL net i ps acc = Inr (acc @ out) \<and>
         list_all2 (corresponds new_URL net)
           (filter (\<lambda>ip. recognized (snd ip)) (List.enumerate i ps)) out"
proof (induction ps arbitrary: i acc)
  case Nil
  then show ?case by simp
next
  case (Cons p ps)
  from Cons.prems have rest: "\<not> list_ex oversize ps" and p: "\<not> oversize p" by simp_all
  let ?rest = "filter (\<lambda>ip. recognized (snd ip)) (List.enumerate (Suc i) ps)"
  have step: "\<exists>out. mapParts new_URL net i (p # ps) acc = Inr (acc @ out) \<and>
                list_all2 (corresponds new_URL net) ((i, p) # ?rest) out"
    if "mapParts new_URL net i (p # ps) acc = mapParts new_URL net (Suc i) ps (acc @ [g])"
      and "corresponds new_URL net (i, p) g" for g
  proof -
    from Cons.IH [OF rest, of "Suc i" "acc @ [g]"] obtain out where
      "mapParts new_URL net (Suc i) ps (acc @ [g]) = Inr ((acc @ [g]) @ out)"
      "list_all2 (corresponds new_URL net) ?rest out" by blast
    with that show ?thesis by (intro exI [of _ "g # out"]) simp
  qed
  show ?case
  proof (cases p)
    case (Text t)
    then show ?thesis using step [of "TextPart t"] by simp
  next
    case (ImageUrl url mt)
    then show ?thesis
      using step [of "media_part new_URL (net i) url mt"] by (simp add: media_part_native)
  next
    case (AudioUrl url mt)
    then show ?thesis
      using step [of "media_part new_URL (net i) url mt"] by (simp add: media_part_native)
  next
    case (VideoUrl url mt)
    then show ?thesis
      using step [of "media_part new_URL (net i) url mt"] by (simp add: media_part_native)
  next
    case (InlineData d mt)
    with p have "validateDataSize d" by simp
    with InlineData show ?thesis
      using step [of "InlineDataPart \<lparr> data = d, mimeType = mt \<rparr>"] by simp
  next
    case (FileUri uri mt)
    then show ?thesis using step [of "FileDataPart uri mt"] by simp
  next
    case (UnknownPart tag)
    from Cons.IH [OF rest, of "Suc i" acc] obtain out where
      "mapParts new_URL net (Suc i) ps acc = Inr (acc @ out)"
      "list_all2 (corresponds new_URL net) ?rest out" by blast
    then show ?thesis using UnknownPart
      by (intro exI [of _ out]) simp
  qed
qed

lemma length_recognized_parts:
  "length (recognized_parts ps) = length ps - length (filter (\<lambda>p. \<not> recognized p) ps)"
proof -
  have "map snd (filter (\<lambda>ip. recognized (snd ip)) (List.enumerate n ps)) =
          filter recognized ps" for n
    by (induction ps arbitrary: n) simp_all
  then have "map snd (recognized_parts ps) = filter recognized ps"
    by (simp add: recognized_parts_def)
  then have "length (recognized_parts ps) = length (filter recognized ps)"
    by (metis length_map)
  then show ?thesis
    using sum_length_filter_compl [of recognized ps] by simp
qed

text \<open>
  C3. A bare string maps to exactly one text part with that string. For a list of parts
  none of which is an inline-bytes part over the size ceiling, the mapping succeeds, the
  native parts stand one to one and in order for the parts with a recognized tag, and
  their number is the number of input parts minus the number of parts with an
  unrecognized tag. What stands for a part is fixed by the part and its position: the
  same text, inline data or file reference, and for a media reference the result of the
  fetch of its URL at that position, which is the fetched data as inline data, or, when
  the fetch fails or gives more than the size ceiling, the one text part that names the
  URL and the error.
\<close>

theorem mapContent_count_order:
  "mapContentToGeminiParts new_URL net (Str s) = Inr [TextPart s] \<and>
   (\<not> list_ex oversize ps \<longrightarrow>
      (\<exists>out. mapContentToGeminiParts new_URL net (Parts ps) = Inr out \<and>
             length out = length ps - length (filter (\<lambda>p. \<not> recognized p) ps) \<and>
             list_all2 (corresponds new_URL net) (recognized_parts ps) out))"
proof (intro conjI impI)
  show "mapContentToGeminiParts new_URL net (Str s) = Inr [TextPart s]"
    by (simp add: mapContentToGeminiParts_def)
next
  assume "\<not> list_ex oversize ps"
  from mapParts_corresponds [OF this, of new_URL net 0 "[]"] obtain out where
    o: "mapParts new_URL net 0 ps [] = Inr out"
       "list_all2 (corresponds new_URL net) (recognized_parts ps) out"
    by (auto simp: recognized_parts_def)
  from o(2) have "length out = length (recognized_parts ps)"
    by (simp add: list_all2_lengthD)
  with o show "\<exists>out. mapContentToGeminiParts new_URL net (Parts ps) = Inr out \<and>
             length out = length ps - length (filter (\<lambda>p. \<not> recognized p) ps) \<and>
             list_all2 (corresponds new_URL net) (recognized_parts ps) out"
    by (simp add: mapContentToGeminiParts_def length_recognized_parts)
qed

text \<open>
  The theorem at a list of six parts, one of them unrecognized, one not reachable; the
  five native parts are those that the relation fixes.
\<close>

theorem mapContent_count_order_witness:
  "\<not> list_ex oversize sample_parts \<and>
   (\<exists>out. mapContentToGeminiParts URL_parse (\<lambda>i u. Aborted) (Parts sample_parts) = Inr out \<and>
          length out = 5 \<and>
          list_all2 (corresponds URL_parse (\<lambda>i u. Aborted)) (recognized_parts sample_parts) out)"
proof -
  have h: "\<not> list_ex oversize sample_parts"
    by (simp add: sample_parts_def validateDataSize_def)
  have l: "length sample_parts - length (filter (\<lambda>p. \<not> recognized p) sample_parts) = 5"
    by (simp add: sample_parts_def)
  from mapContent_count_order
         [where new_URL = URL_parse and net = "\<lambda>i u. Aborted" and s = "[]"
            and ps = sample_parts]
       h
  show ?thesis
    by (simp add: l)
qed

lemma mapContent_sample:
  "mapContentToGeminiParts URL_parse (\<lambda>i u. Aborted) (Parts sample_parts) =
     Inr [TextPart ''a'',
          TextPart ''[Error loading media from https://example.com/a.png: Error: Timeout fetching media from https://example.com/a.png]'',
          InlineDataPart \<lparr> data = ''AAAA'', mimeType = ''image/png'' \<rparr>,
          FileDataPart ''files/1'' None,
          InlineDataPart \<lparr> data = ''AAAA'', mimeType = ''image/png'' \<rparr>]"
proof -
  have v: "validateDataSize ''AAAA''" by (simp add: validateDataSize_def)
  have m1: "fetchAsInlineData URL_parse (\<lambda>u. Aborted) ''https://example.com/a.png'' None =
              Inl (Error ''Timeout fetching media from https://example.com/a.png'')"
    by code_simp
  have m2: "fetchAsInlineData URL_parse (\<lambda>u. Aborted) ''data:image/png;base64,AAAA'' None =
              Inr \<lparr> data = ''AAAA'', mimeType = ''image/png'' \<rparr>"
    by (simp add: fetchAsInlineData_def parseDataUrl_def match_data_url_def
          Buffer_from_base64_def line_terminator_def)
  show ?thesis
    by (simp add: mapContentToGeminiParts_def sample_parts_def media_part_def m1 m2 v
          error_to_string_def)
qed

text \<open>
  What the fetcher does with a reachable file around the two size limits: a body of
  more than 25 MB is refused by the fetch library, one of more than 20 MB by the fetcher
  with its size in the message. Each is a failed fetch, which the mapper turns into the
  text part above.
\<close>

lemma sizeMB_toFixed2_21MB: "sizeMB_toFixed2 22020096 = ''21.00''"
proof -
  have n: "(200 * 22020096 + 1048576) div 2097152 = (2100 :: nat)" by simp
  have s: "show_nat 21 = ''21''" "show_nat 0 = ''0''" by code_simp+
  show ?thesis
    unfolding sizeMB_toFixed2_def n Let_def by (simp add: s)
qed

lemma fetchAsInlineData_size_limits:
  assumes "\<not> prefix ''data:'' url" and "validateUrl new_URL url = Inr ()"
    and "net url = MediaResponse 200 ''OK'' ct bytes sn"
  shows "26214400 < length bytes \<Longrightarrow>
           fetchAsInlineData new_URL net url mt =
             Inl (NamedError ''FetchError''
                    (''content size at '' @ url @ '' over limit: 26214400''))"
    and "20971520 < length bytes \<Longrightarrow> length bytes \<le> 26214400 \<Longrightarrow>
           fetchAsInlineData new_URL net url mt =
             Inl (Error (''Media file too large: '' @ sizeMB_toFixed2 (length bytes) @
                         '' MB (limit: 20 MB)''))"
    and "length bytes \<le> 20971520 \<Longrightarrow>
           \<exists>mime. fetchAsInlineData new_URL net url mt =
                    Inr \<lparr> data = base64_encode bytes, mimeType = mime \<rparr>"
  using assms by (simp_all add: fetchAsInlineData_def ok_def)

lemma error_to_string_FetchError:
  "error_to_string (NamedError ''FetchError'' (''content size at '' @ url @ rest)) =
     ''FetchError: content size at '' @ url @ rest"
  by (simp add: error_to_string_def)

lemma mapMessages_loop_system:
  "\<forall>m \<in> set messages. role m = System \<Longrightarrow>
   mapMessages_loop new_URL net j messages cs sys =
     Inr (cs, sys @ system_fragments messages)"
proof (induction messages arbitrary: j sys)
  case Nil
  then show ?case by (simp add: system_fragments_def)
next
  case (Cons m ms)
  then have r: "role m = System" and rest: "\<forall>m \<in> set ms. role m = System" by simp_all
  show ?case
    using Cons.IH [OF rest] r by (simp add: system_fragments_def Let_def)
qed

lemma join_nonempty:
  "xs \<noteq> [] \<Longrightarrow> hd xs \<noteq> [] \<Longrightarrow> join sep xs \<noteq> []"
  by (induction sep xs rule: join.induct) simp_all

text \<open>
  C6, as the code has it. For a list of system messages only, \<open>mapMessages\<close> yields no
  conversation turn, and the merged instruction is the top-level instruction (if one is
  given and not empty) followed by the trimmed texts of the messages whose trimmed text
  is not empty, in order, joined by a blank line; it is absent, not the empty string,
  when there is no such fragment.
\<close>

theorem mapMessages_system_only:
  assumes "\<forall>m \<in> set messages. role m = System"
  shows "mapMessagesToGeminiContents new_URL net messages systemInstruction =
           Inr \<lparr> contents = [],
                  system_instruction =
                    (let fragments =
                           (case systemInstruction of
                              None \<Rightarrow> []
                            | Some s \<Rightarrow> if s = [] then [] else [s]) @
                           system_fragments messages
                     in if fragments = [] then None
                        else Some (join [CHR 0x0A, CHR 0x0A] fragments)) \<rparr>"
proof -
  let ?seed = "case systemInstruction of None \<Rightarrow> [] | Some s \<Rightarrow> if s \<noteq> [] then [s] else []"
  let ?frags = "?seed @ system_fragments messages"
  have seed: "(case systemInstruction of None \<Rightarrow> [] | Some s \<Rightarrow> if s = [] then [] else [s]) = ?seed"
    by (simp split: option.splits)
  have loop: "mapMessages_loop new_URL net 0 messages [] ?seed = Inr ([], ?frags)"
    using mapMessages_loop_system [OF assms] by simp
  have ne: "\<forall>t \<in> set ?frags. t \<noteq> []"
    by (auto simp: system_fragments_def split: option.splits if_splits)
  have "?frags \<noteq> [] \<Longrightarrow> join [CHR 0x0A, CHR 0x0A] ?frags \<noteq> []"
  proof -
    assume a: "?frags \<noteq> []"
    then have "hd ?frags \<in> set ?frags" by (rule hd_in_set)
    with ne have "hd ?frags \<noteq> []" by blast
    with a show ?thesis by (rule join_nonempty)
  qed
  then show ?thesis
    unfolding mapMessagesToGeminiContents_def loop seed
    by (simp add: or_else_def Let_def)
qed

text \<open>The theorem at three system messages, one of them blank.\<close>

theorem mapMessages_system_only_witness:
  "mapMessagesToGeminiContents URL_parse (\<lambda>j i u. Aborted)
     [\<lparr> role = System, content = Str '' Be brief. '' \<rparr>,
      \<lparr> role = System, content = Str ''   '' \<rparr>,
      \<lparr> role = System, content = Parts [UnknownPart ''x'', Text ''Answer in French.'', Text ''z''] \<rparr>]
     None =
   Inr \<lparr> contents = [],
          system_instruction = Some (''Be brief.'' @ [CHR 0x0A, CHR 0x0A] @ ''Answer in French.'') \<rparr>"
proof -
  let ?ms = "[\<lparr> role = System, content = Str '' Be brief. '' \<rparr>,
      \<lparr> role = System, content = Str ''   '' \<rparr>,
      \<lparr> role = System, content = Parts [UnknownPart ''x'', Text ''Answer in French.'', Text ''z''] \<rparr>]"
  have h: "\<forall>m \<in> set ?ms. role m = System" by simp
  have f: "system_fragments ?ms = [''Be brief.'', ''Answer in French.'']"
    by (simp add: system_fragments_def trim_def is_space_def messageText_def)
  show ?thesis
    using mapMessages_system_only [OF h, of URL_parse "\<lambda>j i u. Aborted" None]
    by (simp add: f)
qed

text \<open>
  The claim as stated (the merged string is the join of the non-empty texts themselves)
  fails for a text with surrounding white space: the code joins the trimmed text.
\<close>

theorem mapMessages_untrimmed_counterexample:
  "mapMessagesToGeminiContents URL_parse (\<lambda>j i u. Aborted)
     [\<lparr> role = System, content = Str '' hi '' \<rparr>] None =
     Inr \<lparr> contents = [], system_instruction = Some ''hi'' \<rparr> \<and>
   join [CHR 0x0A, CHR 0x0A]
     (filter (\<lambda>t. t \<noteq> [])
        (map (\<lambda>m. messageText (content m)) [\<lparr> role = System, content = Str '' hi '' \<rparr>])) =
     '' hi ''"
  by (simp add: mapMessagesToGeminiContents_def trim_def is_space_def messageText_def or_else_def)

section \<open>Properties of the embeddings call\<close>


text \<open>
  The log line of \<open>generateEmbeddings\<close>: a body \<open>null\<close> with status 200 ends the call
  with a TypeError, and the handler reports it.
\<close>

lemma generateEmbeddings_null_body:
  assumes "ep_model params \<noteq> []" and "ep_texts params \<noteq> []"
    and "outcome (fetchWithRetry JSON_parse (server (embed_requests params)) True) =
           Inr (Some JNull)"
  shows "outcome (generateEmbeddings JSON_parse server params) =
           Inl (Err ''Cannot read properties of null (reading 'embeddings')'') \<and>
         embeddings_handler JSON_parse server params =
           Inl ''Generate embeddings failed: Cannot read properties of null (reading 'embeddings')''"
proof -
  have "outcome (generateEmbeddings JSON_parse server params) =
           Inl (Err ''Cannot read properties of null (reading 'embeddings')'')"
    using assms by (simp add: generateEmbeddings_def Let_def get_prop_opt_def)
  then show ?thesis by (simp add: embeddings_handler_def)
qed





end
